theory Spec2Isabelle
  imports Complex_Main
begin

section \<open>Feature-engineering pipeline of \<^verbatim>\<open>src/utils/preprocess.py\<close>\<close>

text \<open>
  A shallow embedding of the class \<^verbatim>\<open>FeatureEngineeringCLI\<close>. The conventions:
  \<^item> a finite IEEE double is a \<^typ>\<open>real\<close>, and NaN is kept apart. Comparisons of doubles
    are exact and are modelled as they are; so is the conversion of an int64 value to
    a double, which rounds to 53 bits. The arithmetic on doubles (sums, quotients, square
    roots, the exponential) is idealised as the arithmetic of the reals: its rounding
    and overflow are not modelled;
  \<^item> a Python exception is a value of type \<open>error\<close>, and every function that can raise
    returns \<open>error + 'a\<close> with \<open>Inl\<close> the exception;
  \<^item> the attributes of \<^verbatim>\<open>self\<close> are a record that the methods take and return, and the
    directory \<^verbatim>\<open>models/\<close> with its three joblib files is a second record, the store;
  \<^item> a DataFrame is its ordered columns (name and dtype) and its rows, each row the
    index label and the cells by column position. Column names are looked up by first
    match, as \<^verbatim>\<open>df[name]\<close> does on a frame whose column names are distinct.
  Logging has no effect on any result and is left out.
\<close>

subsection \<open>Exceptions\<close>

datatype error =
    ValueError string
  | AttributeError string
  | TypeError string
  | KeyError string
  | IndexError string
  | FileNotFoundError string
  | ExternalError string

definition bind :: "error + 'a \<Rightarrow> ('a \<Rightarrow> error + 'b) \<Rightarrow> error + 'b" where
  "bind m f = (case m of Inl e \<Rightarrow> Inl e | Inr x \<Rightarrow> f x)"

text \<open>Evaluating a list of computations from left to right; the first exception wins.\<close>

fun sequence :: "(error + 'a) list \<Rightarrow> error + 'a list" where
  "sequence [] = Inr []"
| "sequence (m # ms) =
     (case m of
        Inl e \<Rightarrow> Inl e
      | Inr x \<Rightarrow> (case sequence ms of Inl e \<Rightarrow> Inl e | Inr xs \<Rightarrow> Inr (x # xs)))"

subsection \<open>Numbers, cells and frames\<close>

datatype float64 = NaN | Fl (val: real)

fun fadd :: "float64 \<Rightarrow> float64 \<Rightarrow> float64" where
  "fadd (Fl a) (Fl b) = Fl (a + b)"
| "fadd _ _ = NaN"

fun fsub :: "float64 \<Rightarrow> float64 \<Rightarrow> float64" where
  "fsub (Fl a) (Fl b) = Fl (a - b)"
| "fsub _ _ = NaN"

fun fmul :: "float64 \<Rightarrow> float64 \<Rightarrow> float64" where
  "fmul (Fl a) (Fl b) = Fl (a * b)"
| "fmul _ _ = NaN"

text \<open>The IEEE comparisons: false as soon as one side is NaN.\<close>

fun flt :: "float64 \<Rightarrow> float64 \<Rightarrow> bool" where
  "flt (Fl a) (Fl b) = (a < b)"
| "flt _ _ = False"

fun fle :: "float64 \<Rightarrow> float64 \<Rightarrow> bool" where
  "fle (Fl a) (Fl b) = (a \<le> b)"
| "fle _ _ = False"

text \<open>
  The double nearest to an int64 value, ties to the even mantissa: what numpy
  computes when it converts an int64 array to float64. A value below \<open>2^53\<close> in magnitude
  is kept; a larger one loses its lowest \<open>e\<close> bits, \<open>e\<close> the number of bits beyond 53.
\<close>

definition to_double :: "int \<Rightarrow> real" where
  "to_double n =
     (let a = \<bar>n\<bar>;
          e = length (filter (\<lambda>k. 2 ^ (53 + k) \<le> a) [0..<11]);
          q = a div 2 ^ e;
          r = a mod 2 ^ e;
          q' = (if 2 * r > 2 ^ e \<or> (2 * r = 2 ^ e \<and> odd q) then q + 1 else q)
      in real_of_int (sgn n * q' * 2 ^ e))"

text \<open>
  A cell of a frame. \<open>Number\<close> is a float64 value, \<open>Integer\<close> an int64 value (or a Python
  int in an object column), \<open>Missing\<close> is \<^verbatim>\<open>None\<close> or \<^verbatim>\<open>NaT\<close>, \<open>Timestamp\<close> and \<open>Duration\<close>
  count nanoseconds, \<open>Obj\<close> is any other Python object (a list, a dict).
\<close>

datatype cell =
    Number float64
  | Integer int
  | Boolean bool
  | Text string
  | Timestamp int
  | Duration int
  | Missing
  | Obj

datatype dtype = FloatT | IntT | BoolT | ObjectT | DatetimeT | TimedeltaT

record dataframe =
  columns :: "(string \<times> dtype) list"
  rows :: "(nat \<times> cell list) list"

type_synonym 'a series = "(nat \<times> 'a) list"

definition column_names :: "dataframe \<Rightarrow> string list" where
  "column_names df = map fst (columns df)"

text \<open>The position of the first column called \<open>name\<close>.\<close>

fun position :: "string \<Rightarrow> string list \<Rightarrow> nat option" where
  "position name [] = None"
| "position name (c # cs) =
     (if c = name then Some 0 else map_option Suc (position name cs))"

text \<open>
  The cell of a row at a position. A row of a well-formed frame has one cell per
  column, so the default is never read there.
\<close>

definition cell_at :: "nat \<Rightarrow> cell list \<Rightarrow> cell" where
  "cell_at i cs = (if i < length cs then cs ! i else Missing)"

text \<open>
  A column by name: its dtype and its cells in row order, \<open>None\<close> when the frame has
  no such column (\<^verbatim>\<open>name in df.columns\<close> is false).
\<close>

definition lookup_column :: "dataframe \<Rightarrow> string \<Rightarrow> (dtype \<times> cell list) option" where
  "lookup_column df name =
     (case position name (column_names df) of
        None \<Rightarrow> None
      | Some i \<Rightarrow> Some (snd (columns df ! i), map (\<lambda>r. cell_at i (snd r)) (rows df)))"

text \<open>\<^verbatim>\<open>df[name]\<close>: \<^verbatim>\<open>KeyError\<close> without the column.\<close>

definition getitem :: "dataframe \<Rightarrow> string \<Rightarrow> error + cell list" where
  "getitem df name =
     (case lookup_column df name of
        None \<Rightarrow> Inl (KeyError name)
      | Some (t, cs) \<Rightarrow> Inr cs)"

text \<open>
  The dtypes that \<^verbatim>\<open>select_dtypes(include=[np.number])\<close> keeps: float64 and int64, and
  timedelta64 as well, since \<^verbatim>\<open>np.timedelta64\<close> is a subclass of \<^verbatim>\<open>np.signedinteger\<close>.
  The dtype bool is not among them.
\<close>

definition is_number :: "dtype \<Rightarrow> bool" where
  "is_number t = (t = FloatT \<or> t = IntT \<or> t = TimedeltaT)"

text \<open>\<^verbatim>\<open>df.select_dtypes(include=[np.number]).columns\<close>\<close>

definition numeric_columns :: "dataframe \<Rightarrow> string list" where
  "numeric_columns df = map fst (filter (\<lambda>(c, t). is_number t) (columns df))"

subsection \<open>Column statistics of pandas\<close>

text \<open>
  The value of a cell of a float64, int64 or bool column as a double; a column of one
  of these dtypes holds no other cell.
\<close>

fun array_value :: "cell \<Rightarrow> float64" where
  "array_value (Number x) = x"
| "array_value (Integer n) = Fl (to_double n)"
| "array_value (Boolean b) = Fl (if b then 1 else 0)"
| "array_value c = NaN"

text \<open>
  \<^verbatim>\<open>Series.mean()\<close> and \<^verbatim>\<open>Series.std()\<close> skip missing values; \<^verbatim>\<open>std\<close> is the sample
  standard deviation (\<^verbatim>\<open>ddof=1\<close>, the pandas default), which is NaN for fewer than two
  values. The mean of no value is NaN.
\<close>

definition present :: "cell list \<Rightarrow> real list" where
  "present cs = [x. Fl x \<leftarrow> map array_value cs]"

definition mean :: "cell list \<Rightarrow> float64" where
  "mean cs =
     (let xs = present cs in
      if xs = [] then NaN else Fl (sum_list xs / real (length xs)))"

definition std :: "cell list \<Rightarrow> float64" where
  "std cs =
     (let xs = present cs; n = length xs; m = sum_list xs / real n in
      if n < 2 then NaN
      else Fl (sqrt (sum_list (map (\<lambda>x. (x - m)\<^sup>2) xs) / real (n - 1))))"

text \<open>
  A scalar that a statistic of a column returns and that a bound is: a double, or for
  a timedelta64 column a \<^verbatim>\<open>Timedelta\<close> of whole nanoseconds, or \<^verbatim>\<open>NaT\<close>.
\<close>

datatype scalar = Float float64 | Timedelta int | NaT

text \<open>
  On a timedelta64 column pandas computes the mean and the deviation of the
  nanosecond counts as doubles and cuts the result to whole nanoseconds
  (\<^verbatim>\<open>np.int64(result)\<close>); so does the product of a \<^verbatim>\<open>Timedelta\<close> and a factor.
\<close>

definition trunc :: "real \<Rightarrow> int" where
  "trunc x = (if 0 \<le> x then \<lfloor>x\<rfloor> else \<lceil>x\<rceil>)"

definition durations :: "cell list \<Rightarrow> real list" where
  "durations cs = [to_double d. Duration d \<leftarrow> cs]"

definition mean_timedelta :: "cell list \<Rightarrow> scalar" where
  "mean_timedelta cs =
     (let xs = durations cs in
      if xs = [] then NaT else Timedelta (trunc (sum_list xs / real (length xs))))"

definition std_timedelta :: "cell list \<Rightarrow> scalar" where
  "std_timedelta cs =
     (let xs = durations cs; n = length xs; m = sum_list xs / real n in
      if n < 2 then NaT
      else Timedelta (trunc (sqrt (sum_list (map (\<lambda>x. (x - m)\<^sup>2) xs) / real (n - 1)))))"

fun times_timedelta :: "real \<Rightarrow> scalar \<Rightarrow> scalar" where
  "times_timedelta k (Timedelta d) = Timedelta (trunc (k * real_of_int d))"
| "times_timedelta k s = NaT"

fun minus_timedelta :: "scalar \<Rightarrow> scalar \<Rightarrow> scalar" where
  "minus_timedelta (Timedelta a) (Timedelta b) = Timedelta (a - b)"
| "minus_timedelta a b = NaT"

fun plus_timedelta :: "scalar \<Rightarrow> scalar \<Rightarrow> scalar" where
  "plus_timedelta (Timedelta a) (Timedelta b) = Timedelta (a + b)"
| "plus_timedelta a b = NaT"

subsection \<open>The instance and the store\<close>

text \<open>A Python dict: insertion order is kept, a key is stored once.\<close>

fun dict_set :: "('k \<times> 'v) list \<Rightarrow> 'k \<Rightarrow> 'v \<Rightarrow> ('k \<times> 'v) list" where
  "dict_set [] k v = [(k, v)]"
| "dict_set ((k', v') # d) k v =
     (if k' = k then (k, v) # d else (k', v') # dict_set d k v)"

type_synonym bounds = "(string \<times> scalar \<times> scalar) list"

text \<open>
  A fitted scikit-learn scaler: per numeric column, in column order, the pair of fitted
  attributes that \<^verbatim>\<open>transform\<close> uses: \<^verbatim>\<open>(mean_, scale_)\<close> of a \<^verbatim>\<open>StandardScaler\<close>,
  \<^verbatim>\<open>(min_, scale_)\<close> of a \<^verbatim>\<open>MinMaxScaler\<close>, \<^verbatim>\<open>(center_, scale_)\<close> of a \<^verbatim>\<open>RobustScaler\<close>.
\<close>

datatype scaler =
    StandardScaler "(float64 \<times> float64) list"
  | MinMaxScaler "(float64 \<times> float64) list"
  | RobustScaler "(float64 \<times> float64) list"

text \<open>
  The fitted decision-tree pipeline, as the function \<^verbatim>\<open>predict_proba\<close> from the rows of
  the categorical columns to one row of class probabilities each.
\<close>

datatype pipeline = Pipeline (predict_proba: "cell list list \<Rightarrow> error + float64 list list")

record cli =
  one_line_processing :: bool
  dga :: string
  single_record_df :: "dataframe option"
  benign_path :: "string option"
  malign_path :: "string option"
  scaler :: "scaler option"
  outliers :: "bounds option"
  scaler_saved :: bool
  outliers_saved :: bool
  model :: "pipeline option"

text \<open>
  \<^verbatim>\<open>pd.DataFrame([input_data])\<close>: one row with index label 0 and one column per key of
  the dict, the dtype of a column inferred from its only value.
\<close>

fun infer_dtype :: "cell \<Rightarrow> dtype" where
  "infer_dtype (Number x) = FloatT"
| "infer_dtype (Integer n) = IntT"
| "infer_dtype (Boolean b) = BoolT"
| "infer_dtype (Timestamp t) = DatetimeT"
| "infer_dtype (Duration d) = TimedeltaT"
| "infer_dtype c = ObjectT"

definition DataFrame :: "(string \<times> cell) list \<Rightarrow> dataframe" where
  "DataFrame input_data =
     \<lparr>columns = map (\<lambda>(k, v). (k, infer_dtype v)) input_data,
      rows = [(0, map snd input_data)]\<rparr>"

text \<open>
  \<^verbatim>\<open>__init__\<close>. The argument \<^verbatim>\<open>input_data\<close> is a dict: the record itself in
  single-record processing, the paths under the keys \<^verbatim>\<open>benign\<close> and \<^verbatim>\<open>malign\<close> otherwise
  (\<^verbatim>\<open>input_data.get\<close> gives \<^verbatim>\<open>None\<close> for a key that is not there).
\<close>

definition get_path :: "(string \<times> cell) list \<Rightarrow> string \<Rightarrow> string option" where
  "get_path input_data key =
     (case map_of input_data key of Some (Text p) \<Rightarrow> Some p | _ \<Rightarrow> None)"

definition init :: "(string \<times> cell) list \<Rightarrow> bool \<Rightarrow> string \<Rightarrow> cli" where
  "init input_data one_line mode =
     \<lparr>one_line_processing = one_line,
      dga = mode,
      single_record_df = (if one_line then Some (DataFrame input_data) else None),
      benign_path = (if one_line \<or> mode = ''multiclass'' then None
                     else get_path input_data ''benign''),
      malign_path = (if one_line then None else get_path input_data ''malign''),
      scaler = None, outliers = None, scaler_saved = False, outliers_saved = False,
      model = None\<rparr>"

text \<open>
  The directory \<^verbatim>\<open>models/\<close> and the files \<^verbatim>\<open>scaler.joblib\<close>, \<^verbatim>\<open>outliers.joblib\<close> and
  \<^verbatim>\<open>decision_tree_model.joblib\<close> in it: \<open>None\<close> while the file does not exist.
\<close>

record store =
  models_dir :: bool
  scaler_file :: "scaler option"
  outliers_file :: "bounds option"
  model_file :: "pipeline option"

text \<open>\<^verbatim>\<open>save_borders\<close> begins with \<^verbatim>\<open>os.makedirs\<close>, which creates the directory.\<close>

definition save_borders :: "cli \<Rightarrow> store \<Rightarrow> cli \<times> store" where
  "save_borders self st =
     (let st0 = st\<lparr>models_dir := True\<rparr>;
          (self1, st1) =
            (if scaler self \<noteq> None \<and> \<not> scaler_saved self
             then (self\<lparr>scaler_saved := True\<rparr>, st0\<lparr>scaler_file := scaler self\<rparr>)
             else (self, st0))
      in if outliers self1 \<noteq> None \<and> \<not> outliers_saved self1
         then (self1\<lparr>outliers_saved := True\<rparr>, st1\<lparr>outliers_file := outliers self1\<rparr>)
         else (self1, st1))"

definition load_borders :: "cli \<Rightarrow> store \<Rightarrow> cli" where
  "load_borders self st =
     (let self1 = (case scaler_file st of
                     Some s \<Rightarrow> self\<lparr>scaler := Some s\<rparr>
                   | None \<Rightarrow> self)
      in case outliers_file st of
           Some b \<Rightarrow> self1\<lparr>outliers := Some b\<rparr>
         | None \<Rightarrow> self1)"

text \<open>
  \<^verbatim>\<open>save_model\<close> does not create the directory: \<^verbatim>\<open>joblib.dump\<close> raises
  \<^verbatim>\<open>FileNotFoundError\<close> when \<^verbatim>\<open>models/\<close> does not exist.
\<close>

definition save_model :: "cli \<Rightarrow> store \<Rightarrow> error + store" where
  "save_model self st =
     (case model self of
        Some m \<Rightarrow>
          (if models_dir st then Inr (st\<lparr>model_file := Some m\<rparr>)
           else Inl (FileNotFoundError ''models/decision_tree_model.joblib''))
      | None \<Rightarrow> Inr st)"

definition load_model :: "cli \<Rightarrow> store \<Rightarrow> cli" where
  "load_model self st =
     (case model_file st of Some m \<Rightarrow> self\<lparr>model := Some m\<rparr> | None \<Rightarrow> self)"

subsection \<open>\<^verbatim>\<open>remove_outliers\<close>\<close>

text \<open>
  The dict comprehension of lines 280 to 282: one entry per selected column, the pair
  \<^verbatim>\<open>(mean_val - std_multiplier * std_val, mean_val + std_multiplier * std_val)\<close>, in doubles
  for a float64 or int64 column and in \<^verbatim>\<open>Timedelta\<close>s for a timedelta64 column.
\<close>

definition threshold :: "dtype \<Rightarrow> cell list \<Rightarrow> real \<Rightarrow> scalar \<times> scalar" where
  "threshold t cs std_multiplier =
     (if t = TimedeltaT then
        (let mean_val = mean_timedelta cs; std_val = std_timedelta cs in
         (minus_timedelta mean_val (times_timedelta std_multiplier std_val),
          plus_timedelta mean_val (times_timedelta std_multiplier std_val)))
      else
        (let mean_val = mean cs; std_val = std cs in
         (Float (fsub mean_val (fmul (Fl std_multiplier) std_val)),
          Float (fadd mean_val (fmul (Fl std_multiplier) std_val)))))"

definition add_threshold :: "dataframe \<Rightarrow> real \<Rightarrow> string \<Rightarrow> bounds \<Rightarrow> bounds" where
  "add_threshold features std_multiplier column d =
     (case lookup_column features column of
        Some (t, cs) \<Rightarrow> dict_set d column (threshold t cs std_multiplier)
      | None \<Rightarrow> d)"

definition thresholds :: "dataframe \<Rightarrow> real \<Rightarrow> bounds" where
  "thresholds features std_multiplier =
     fold (add_threshold features std_multiplier) (numeric_columns features) []"

text \<open>
  \<^verbatim>\<open>features[column] < lower_bound\<close> and \<^verbatim>\<open>features[column] > upper_bound\<close>.
  \<^item> A float64, int64 or bool column is compared with a double as an array of doubles,
    by IEEE rules; it cannot be compared with a \<^verbatim>\<open>Timedelta\<close> or \<^verbatim>\<open>NaT\<close>.
  \<^item> A timedelta64 column is compared with a \<^verbatim>\<open>Timedelta\<close> by nanoseconds, a missing
    cell or \<^verbatim>\<open>NaT\<close> giving \<^verbatim>\<open>False\<close>; it cannot be compared with a double.
  \<^item> A datetime64 column cannot be compared with a double or a \<^verbatim>\<open>Timedelta\<close>; compared
    with \<^verbatim>\<open>NaT\<close> it gives \<^verbatim>\<open>False\<close>.
  \<^item> In an object column pandas compares cell by cell as Python does: a missing cell
    or a missing bound gives \<^verbatim>\<open>False\<close>, numbers compare by value, and a string or another
    object raises \<^verbatim>\<open>TypeError\<close>.
\<close>

datatype comparison = Lt | Gt

fun compare_float :: "comparison \<Rightarrow> float64 \<Rightarrow> float64 \<Rightarrow> bool" where
  "compare_float Lt x b = flt x b"
| "compare_float Gt x b = flt b x"

fun compare_int :: "comparison \<Rightarrow> int \<Rightarrow> int \<Rightarrow> bool" where
  "compare_int Lt x b = (x < b)"
| "compare_int Gt x b = (b < x)"

fun isnull :: "cell \<Rightarrow> bool" where
  "isnull Missing = True"
| "isnull (Number NaN) = True"
| "isnull c = False"

fun isnull_scalar :: "scalar \<Rightarrow> bool" where
  "isnull_scalar NaT = True"
| "isnull_scalar (Float NaN) = True"
| "isnull_scalar b = False"

definition object_compare :: "comparison \<Rightarrow> cell \<Rightarrow> scalar \<Rightarrow> error + bool" where
  "object_compare op c b =
     (if isnull c \<or> isnull_scalar b then Inr False
      else case (c, b) of
          (Number x, Float y) \<Rightarrow> Inr (compare_float op x y)
        | (Integer n, Float y) \<Rightarrow> Inr (compare_float op (Fl (real_of_int n)) y)
        | (Boolean v, Float y) \<Rightarrow> Inr (compare_float op (Fl (if v then 1 else 0)) y)
        | (Duration d, Timedelta y) \<Rightarrow> Inr (compare_int op d y)
        | _ \<Rightarrow> Inl (TypeError ''not supported between instances''))"

definition valid_comparison :: "dtype \<Rightarrow> scalar \<Rightarrow> bool" where
  "valid_comparison t b =
     (case t of
        ObjectT \<Rightarrow> True
      | DatetimeT \<Rightarrow> (case b of NaT \<Rightarrow> True | _ \<Rightarrow> False)
      | TimedeltaT \<Rightarrow> (case b of Float y \<Rightarrow> False | _ \<Rightarrow> True)
      | _ \<Rightarrow> (case b of Float y \<Rightarrow> True | _ \<Rightarrow> False))"

definition cell_compare :: "comparison \<Rightarrow> dtype \<Rightarrow> cell \<Rightarrow> scalar \<Rightarrow> error + bool" where
  "cell_compare op t c b =
     (case t of
        ObjectT \<Rightarrow> object_compare op c b
      | DatetimeT \<Rightarrow>
          (case b of
             NaT \<Rightarrow> Inr False
           | _ \<Rightarrow> Inl (TypeError ''Invalid comparison''))
      | TimedeltaT \<Rightarrow>
          (case (c, b) of
             (Duration d, Timedelta y) \<Rightarrow> Inr (compare_int op d y)
           | (_, Float y) \<Rightarrow> Inl (TypeError ''Invalid comparison'')
           | _ \<Rightarrow> Inr False)
      | _ \<Rightarrow>
          (case b of
             Float y \<Rightarrow> Inr (compare_float op (array_value c) y)
           | _ \<Rightarrow> Inl (TypeError ''Invalid comparison'')))"

definition compare_column ::
  "comparison \<Rightarrow> dtype \<Rightarrow> cell list \<Rightarrow> scalar \<Rightarrow> error + bool list" where
  "compare_column op t cs b =
     (if valid_comparison t b then sequence (map (\<lambda>c. cell_compare op t c b) cs)
      else Inl (TypeError ''Invalid comparison''))"

definition outlier_condition :: "dtype \<Rightarrow> cell list \<Rightarrow> scalar \<Rightarrow> scalar \<Rightarrow> error + bool list" where
  "outlier_condition t cs lower_bound upper_bound =
     bind (compare_column Lt t cs lower_bound) (\<lambda>below.
     bind (compare_column Gt t cs upper_bound) (\<lambda>above.
       Inr (map2 (\<or>) below above)))"

text \<open>
  \<^verbatim>\<open>drop(labels, inplace=True)\<close> removes every row whose index label is listed and
  raises \<^verbatim>\<open>KeyError\<close> when a listed label is not in the index.
\<close>

definition drop_index :: "nat list \<Rightarrow> (nat \<times> 'a) list \<Rightarrow> error + (nat \<times> 'a) list" where
  "drop_index labels xs =
     (if set labels \<subseteq> fst ` set xs
      then Inr (filter (\<lambda>r. fst r \<notin> set labels) xs)
      else Inl (KeyError ''not found in axis''))"

text \<open>\<^verbatim>\<open>df[mask]\<close>: the rows at which the boolean mask is true.\<close>

definition boolean_index :: "'a list \<Rightarrow> bool list \<Rightarrow> 'a list" where
  "boolean_index xs cond = map fst (filter snd (zip xs cond))"

text \<open>The loop of lines 291 to 304 over \<^verbatim>\<open>self.outliers.items()\<close>.\<close>

fun remove_rows :: "bounds \<Rightarrow> dataframe \<Rightarrow> 'a series \<Rightarrow> error + dataframe \<times> 'a series" where
  "remove_rows [] features labels = Inr (features, labels)"
| "remove_rows ((column, lower_bound, upper_bound) # rest) features labels =
     (case lookup_column features column of
        None \<Rightarrow> remove_rows rest features labels
      | Some (t, cs) \<Rightarrow>
          bind (outlier_condition t cs lower_bound upper_bound) (\<lambda>cond.
            let outlier_indices = map fst (boolean_index (rows features) cond) in
            bind (drop_index outlier_indices (rows features)) (\<lambda>rows'.
            bind (drop_index outlier_indices labels) (\<lambda>labels'.
              remove_rows rest (features\<lparr>rows := rows'\<rparr>) labels'))))"

definition remove_outliers ::
  "cli \<Rightarrow> store \<Rightarrow> dataframe \<Rightarrow> 'a series \<Rightarrow> real
     \<Rightarrow> error + (dataframe \<times> 'a series) \<times> cli \<times> store" where
  "remove_outliers self st features labels std_multiplier =
     (let (self1, st1) =
            (if \<not> one_line_processing self
             then save_borders (self\<lparr>outliers := Some (thresholds features std_multiplier)\<rparr>) st
             else (load_borders self st, st))
      in case outliers self1 of
           None \<Rightarrow> Inl (ValueError ''Outlier thresholds must be available for outlier removal.'')
         | Some [] \<Rightarrow> Inl (ValueError ''Outlier thresholds must be available for outlier removal.'')
         | Some bs \<Rightarrow> bind (remove_rows bs features labels) (\<lambda>r. Inr (r, self1, st1)))"

text \<open>
  The signature is \<^verbatim>\<open>remove_outliers(self, features, labels, std_multiplier=8)\<close>: a call
  without the last argument uses the multiplier 8.
\<close>

definition remove_outliers_default ::
  "cli \<Rightarrow> store \<Rightarrow> dataframe \<Rightarrow> 'a series
     \<Rightarrow> error + (dataframe \<times> 'a series) \<times> cli \<times> store" where
  "remove_outliers_default self st features labels = remove_outliers self st features labels 8"

subsection \<open>Predicates and examples for \<^verbatim>\<open>remove_outliers\<close>\<close>

text \<open>The store before any training run: no directory, no file.\<close>

definition empty_store :: store where
  "empty_store =
     \<lparr>models_dir = False, scaler_file = None, outliers_file = None, model_file = None\<rparr>"

text \<open>
  A cell of a column of dtype \<open>t\<close> is outside an interval when a comparison of line 295
  is true for it, and not outside when both are evaluated and false.
\<close>

definition outside :: "dtype \<Rightarrow> scalar \<Rightarrow> scalar \<Rightarrow> cell \<Rightarrow> bool" where
  "outside t lo hi v = (cell_compare Lt t v lo = Inr True \<or> cell_compare Gt t v hi = Inr True)"

definition not_outside :: "dtype \<Rightarrow> scalar \<Rightarrow> scalar \<Rightarrow> cell \<Rightarrow> bool" where
  "not_outside t lo hi v = (cell_compare Lt t v lo = Inr False \<and> cell_compare Gt t v hi = Inr False)"

definition none_outside :: "bounds \<Rightarrow> dataframe \<Rightarrow> bool" where
  "none_outside bs df =
     (\<forall>(c, lo, hi) \<in> set bs.
        case lookup_column df c of
          None \<Rightarrow> True
        | Some (t, cs) \<Rightarrow> \<forall>v \<in> set cs. not_outside t lo hi v)"

text \<open>
  A row is an outlier of a bounded column when its cell in that column is outside the
  bounds; \<open>outlier_labels\<close> are the index labels of the rows that are an outlier of some
  bounded column.
\<close>

definition row_outside :: "dataframe \<Rightarrow> nat \<times> cell list \<Rightarrow> string \<times> scalar \<times> scalar \<Rightarrow> bool" where
  "row_outside df r b =
     (case position (fst b) (column_names df) of
        None \<Rightarrow> False
      | Some i \<Rightarrow> outside (snd (columns df ! i)) (fst (snd b)) (snd (snd b)) (cell_at i (snd r)))"

definition outlier_labels :: "bounds \<Rightarrow> dataframe \<Rightarrow> nat list" where
  "outlier_labels bs df = map fst (filter (\<lambda>r. list_ex (row_outside df r) bs) (rows df))"

text \<open>
  \<open>lower_bound \<le> value \<le> upper_bound\<close> as the comparisons of the language decide it:
  false when the value or a bound is missing.
\<close>

definition in_bounds :: "dtype \<Rightarrow> scalar \<Rightarrow> scalar \<Rightarrow> cell \<Rightarrow> bool" where
  "in_bounds t lo hi v =
     (if t = TimedeltaT then
        (case (lo, hi, v) of
           (Timedelta l, Timedelta h, Duration d) \<Rightarrow> l \<le> d \<and> d \<le> h
         | _ \<Rightarrow> False)
      else
        (case (lo, hi) of
           (Float l, Float h) \<Rightarrow> fle l (array_value v) \<and> fle (array_value v) h
         | _ \<Rightarrow> False))"

definition all_in_bounds :: "bounds \<Rightarrow> dataframe \<Rightarrow> bool" where
  "all_in_bounds bs df =
     (\<forall>(c, lo, hi) \<in> set bs.
        case lookup_column df c of
          None \<Rightarrow> True
        | Some (t, cs) \<Rightarrow> \<forall>v \<in> set cs. in_bounds t lo hi v)"

text \<open>
  The cell of a column of dtype \<open>t\<close> holds a value: a duration in a timedelta64 column,
  a number that is not NaN in a float64, int64 or bool column.
\<close>

definition has_value :: "dtype \<Rightarrow> cell \<Rightarrow> bool" where
  "has_value t v =
     (case t of
        TimedeltaT \<Rightarrow> (case v of Duration d \<Rightarrow> True | _ \<Rightarrow> False)
      | ObjectT \<Rightarrow> False
      | DatetimeT \<Rightarrow> False
      | _ \<Rightarrow> array_value v \<noteq> NaN)"

text \<open>The number of values of a column that its mean and deviation are taken over.\<close>

definition observed :: "dtype \<Rightarrow> cell list \<Rightarrow> nat" where
  "observed t cs = (if t = TimedeltaT then length (durations cs) else length (present cs))"

definition values_in_bounds :: "bounds \<Rightarrow> dataframe \<Rightarrow> bool" where
  "values_in_bounds bs df =
     (\<forall>(c, lo, hi) \<in> set bs.
        case lookup_column df c of
          None \<Rightarrow> True
        | Some (t, cs) \<Rightarrow>
            \<forall>v \<in> set cs. \<not> isnull_scalar lo \<and> \<not> isnull_scalar hi \<and> has_value t v
                          \<longrightarrow> in_bounds t lo hi v)"

text \<open>The bound pair of one column, when the frame has the column.\<close>

definition column_threshold :: "dataframe \<Rightarrow> real \<Rightarrow> string \<Rightarrow> (scalar \<times> scalar) option" where
  "column_threshold features k c =
     map_option (\<lambda>(t, cs). threshold t cs k) (lookup_column features c)"

text \<open>A feature table with one float64 column \<open>x\<close> and the values given.\<close>

definition column_x :: "real list \<Rightarrow> dataframe" where
  "column_x xs =
     \<lparr>columns = [(''x'', FloatT)],
      rows = map (\<lambda>(i, x). (i, [Number (Fl x)])) (enumerate 0 xs)\<rparr>"

text \<open>
  No comparison with a bound can raise: every bounded column that the table has is of
  a dtype other than object, and its comparison with both bounds is valid.
\<close>

definition comparable :: "bounds \<Rightarrow> dataframe \<Rightarrow> bool" where
  "comparable bs df =
     (\<forall>(c, lo, hi) \<in> set bs.
        case lookup_column df c of
          None \<Rightarrow> True
        | Some (t, cs) \<Rightarrow> t \<noteq> ObjectT \<and> valid_comparison t lo \<and> valid_comparison t hi)"

text \<open>A store in which a training run has left the bounds 2 and 6 for the column \<open>x\<close>.\<close>

definition served_store :: store where
  "served_store = empty_store\<lparr>models_dir := True, outliers_file := Some [(''x'', Float (Fl 2), Float (Fl 6))]\<rparr>"

text \<open>
  A record whose field \<open>a\<close> is a string, and a store in which a training run has left
  bounds for the columns \<open>a\<close> and \<open>x\<close>.
\<close>

definition text_record :: "(string \<times> cell) list" where
  "text_record = [(''a'', Text ''abc''), (''x'', Number (Fl 50))]"

definition served_store_a :: store where
  "served_store_a =
     empty_store\<lparr>models_dir := True,
       outliers_file := Some [(''a'', Float (Fl 0), Float (Fl 1)), (''x'', Float (Fl 2), Float (Fl 6))]\<rparr>"

text \<open>A feature table with one timedelta64 column \<open>t\<close> and the nanosecond counts given.\<close>

definition column_t :: "int list \<Rightarrow> dataframe" where
  "column_t ds =
     \<lparr>columns = [(''t'', TimedeltaT)],
      rows = map (\<lambda>(i, d). (i, [Duration d])) (enumerate 0 ds)\<rparr>"

subsection \<open>The class map (lines 442 to 479 of \<^verbatim>\<open>perform_eda\<close>)\<close>

text \<open>\<^verbatim>\<open>str.startswith\<close> and \<^verbatim>\<open>str.split\<close> with a one-character separator.\<close>

definition startswith :: "string \<Rightarrow> string \<Rightarrow> bool" where
  "startswith s p = (take (length p) s = p)"

fun split_on :: "char \<Rightarrow> string \<Rightarrow> string list" where
  "split_on sep [] = [[]]"
| "split_on sep (c # cs) =
     (if c = sep then [] # split_on sep cs
      else (case split_on sep cs of
              p # ps \<Rightarrow> (c # p) # ps
            | [] \<Rightarrow> [[c]]))"

text \<open>
  The methods are called on the label as it is in the column: a label that is not a
  string has no such method. Labels are strings in the data model.
\<close>

definition label_startswith :: "cell \<Rightarrow> string \<Rightarrow> error + bool" where
  "label_startswith label p =
     (case label of
        Text s \<Rightarrow> Inr (startswith s p)
      | _ \<Rightarrow> Inl (AttributeError ''startswith''))"

text \<open>\<^verbatim>\<open>label.split(":")[0] + ":" + label.split(":")[1]\<close>\<close>

definition cleaned_label :: "cell \<Rightarrow> error + string" where
  "cleaned_label label =
     (case label of
        Text s \<Rightarrow>
          (let parts = split_on CHR '':'' s in
           if length parts < 2 then Inl (IndexError ''list index out of range'')
           else Inr (parts ! 0 @ '':'' @ parts ! 1))
      | _ \<Rightarrow> Inl (AttributeError ''split''))"

text \<open>\<^verbatim>\<open>Series.unique()\<close>: the distinct values in order of first appearance.\<close>

definition unique :: "'a list \<Rightarrow> 'a list" where
  "unique xs = rev (remdups (rev xs))"

type_synonym class_map = "(cell \<times> int) list"

text \<open>
  The loop of the binary branch, lines 447 to 452. Its body first evaluates the list
  comprehension \<^verbatim>\<open>cleaned_labels\<close> over all of \<^verbatim>\<open>unique_labels\<close>, whose value is not used.
\<close>

fun binary_loop :: "cell list \<Rightarrow> cell list \<Rightarrow> class_map \<Rightarrow> error + class_map" where
  "binary_loop unique_labels [] class_map = Inr class_map"
| "binary_loop unique_labels (label # rest) class_map =
     bind (sequence (map cleaned_label unique_labels)) (\<lambda>cleaned_labels.
     bind (label_startswith label ''benign'') (\<lambda>benign.
       if benign then binary_loop unique_labels rest (dict_set class_map label 0)
       else bind (label_startswith label ''dga'') (\<lambda>dga.
         if dga then binary_loop unique_labels rest (dict_set class_map label 1)
         else binary_loop unique_labels rest class_map)))"

text \<open>
  The multiclass branch, lines 456 to 460. The dict \<^verbatim>\<open>dga_class_map\<close> is imported from
  the module \<^verbatim>\<open>dga_mapping\<close> and is a parameter here.
\<close>

definition inverse_map :: "('k \<times> 'v) list \<Rightarrow> ('v \<times> 'k) list" where
  "inverse_map d = fold (\<lambda>(k, v) inverted. dict_set inverted v k) d []"

fun multiclass_loop :: "(string \<times> int) list \<Rightarrow> (cell \<times> string) list \<Rightarrow> class_map \<Rightarrow> class_map" where
  "multiclass_loop inverted [] class_map = class_map"
| "multiclass_loop inverted ((label, cleaned) # rest) class_map =
     (case map_of inverted cleaned of
        Some family \<Rightarrow> multiclass_loop inverted rest (dict_set class_map label family)
      | None \<Rightarrow> multiclass_loop inverted rest class_map)"

text \<open>The loop of the last branch, lines 467 to 475.\<close>

fun generic_loop :: "cell list \<Rightarrow> class_map \<Rightarrow> error + class_map" where
  "generic_loop [] class_map = Inr class_map"
| "generic_loop (label # rest) class_map =
     bind (label_startswith label ''benign'') (\<lambda>benign.
       if benign then generic_loop rest (dict_set class_map label 0)
       else bind (label_startswith label ''malware'') (\<lambda>malware.
         if malware then generic_loop rest (dict_set class_map label 1)
         else bind (label_startswith label ''misp'') (\<lambda>misp.
           if misp then generic_loop rest (dict_set class_map label 1)
           else bind (label_startswith label ''phishing'') (\<lambda>phishing.
             if phishing then generic_loop rest (dict_set class_map label 1)
             else generic_loop rest class_map))))"

definition generate_class_map ::
  "string \<Rightarrow> (int \<times> string) list \<Rightarrow> cell list \<Rightarrow> error + class_map" where
  "generate_class_map mode dga_class_map unique_labels =
     (if mode = ''binary'' then binary_loop unique_labels unique_labels []
      else if mode = ''multiclass'' then
        bind (sequence (map cleaned_label unique_labels)) (\<lambda>cleaned_labels.
          Inr (multiclass_loop (inverse_map dga_class_map) (zip unique_labels cleaned_labels) []))
      else generic_loop unique_labels [])"

text \<open>
  Line 479, \<^verbatim>\<open>combined_df['label'].apply(lambda x: class_map.get(x, -1))\<close>: one integer per
  row, under the index label of the row.
\<close>

definition encode_labels :: "class_map \<Rightarrow> cell series \<Rightarrow> int series" where
  "encode_labels class_map labels =
     map (\<lambda>(i, x). (i, case map_of class_map x of Some v \<Rightarrow> v | None \<Rightarrow> - 1)) labels"

text \<open>
  The classes the generic policy gives to a label string, after the words of the
  specification: 0 for the prefix \<open>benign\<close>, 1 for \<open>malware\<close>, \<open>misp\<close> or \<open>phishing\<close>, none
  otherwise. The one of the binary policy: 0 for \<open>benign\<close>, 1 for \<open>dga\<close>.
\<close>

definition generic_class :: "string \<Rightarrow> int option" where
  "generic_class s =
     (if startswith s ''benign'' then Some 0
      else if startswith s ''malware'' \<or> startswith s ''misp'' \<or> startswith s ''phishing''
      then Some 1 else None)"

definition binary_class :: "string \<Rightarrow> int option" where
  "binary_class s =
     (if startswith s ''benign'' then Some 0
      else if startswith s ''dga'' then Some 1 else None)"

text \<open>
  What one iteration of the generic loop, and of the binary loop once its list
  comprehension has been evaluated, does to the class map for a label that is a string.
\<close>

definition generic_step :: "cell \<Rightarrow> class_map \<Rightarrow> class_map" where
  "generic_step label cm =
     (case label of
        Text s \<Rightarrow> (case generic_class s of Some v \<Rightarrow> dict_set cm label v | None \<Rightarrow> cm)
      | _ \<Rightarrow> cm)"

definition binary_step :: "cell \<Rightarrow> class_map \<Rightarrow> class_map" where
  "binary_step label cm =
     (case label of
        Text s \<Rightarrow> (case binary_class s of Some v \<Rightarrow> dict_set cm label v | None \<Rightarrow> cm)
      | _ \<Rightarrow> cm)"

subsection \<open>Numeric columns as arrays\<close>

text \<open>The positions of the columns whose dtype satisfies \<open>P\<close>, in column order.\<close>

definition positions :: "(dtype \<Rightarrow> bool) \<Rightarrow> dataframe \<Rightarrow> nat list" where
  "positions P df = map fst (filter (\<lambda>(i, c, t). P t) (enumerate 0 (columns df)))"

definition column_at :: "dataframe \<Rightarrow> nat \<Rightarrow> cell list" where
  "column_at df i = map (\<lambda>r. cell_at i (snd r)) (rows df)"

text \<open>
  \<^verbatim>\<open>df.select_dtypes(include=[np.number])\<close>: the frame of the selected columns, with the
  rows and the index of \<open>df\<close>. The selection never raises.
\<close>

definition select_number :: "dataframe \<Rightarrow> dataframe" where
  "select_number df =
     \<lparr>columns = map (\<lambda>i. columns df ! i) (positions is_number df),
      rows = map (\<lambda>r. (fst r, map (\<lambda>i. cell_at i (snd r)) (positions is_number df))) (rows df)\<rparr>"

text \<open>
  A frame of float64 and int64 columns as an array of doubles, given by its columns.
  A timedelta64 column is not a column of doubles; \<open>has_timedelta\<close> says that the frame
  has one, and the functions that take the frame as an array decide on it first.
\<close>

definition to_numpy :: "dataframe \<Rightarrow> float64 list list" where
  "to_numpy df = map (\<lambda>i. map array_value (column_at df i)) [0..<length (columns df)]"

definition has_timedelta :: "dataframe \<Rightarrow> bool" where
  "has_timedelta df = list_ex (\<lambda>(c, t). t = TimedeltaT) (columns df)"

definition reals :: "float64 list \<Rightarrow> real list" where
  "reals xs = [x. Fl x \<leftarrow> xs]"

fun fdiv :: "float64 \<Rightarrow> float64 \<Rightarrow> float64" where
  "fdiv (Fl a) (Fl b) = (if b = 0 then NaN else Fl (a / b))"
| "fdiv _ _ = NaN"

fun fabs :: "float64 \<Rightarrow> float64" where
  "fabs (Fl a) = Fl \<bar>a\<bar>"
| "fabs NaN = NaN"

subsection \<open>\<^verbatim>\<open>scaler_recommendation\<close>\<close>

text \<open>
  \<^verbatim>\<open>scipy.stats.zscore\<close> of one column (\<^verbatim>\<open>axis=0\<close>, \<^verbatim>\<open>ddof=0\<close>, NaN propagates): the
  values less their mean, over the population standard deviation. A column with a NaN
  has only NaN scores, and so has a constant column, where the quotient is \<open>0/0\<close>.
\<close>

definition zscore :: "float64 list \<Rightarrow> float64 list" where
  "zscore xs =
     (let v = reals xs; n = real (length v); m = sum_list v / n;
          s = sqrt (sum_list (map (\<lambda>x. (x - m)\<^sup>2) v) / n)
      in if NaN \<in> set xs \<or> s = 0 then map (\<lambda>x. NaN) xs
         else map (\<lambda>x. Fl ((x - m) / s)) v)"

text \<open>
  \<^verbatim>\<open>zscore(numeric_df)\<close> on the whole frame. The standard deviation squares the
  deviations from the mean, and numpy has no product of two timedelta64 values: with a
  timedelta64 column in the frame the call raises (\<^verbatim>\<open>TypeError\<close> from the ufunc
  \<^verbatim>\<open>multiply\<close>; the model does not distinguish the messages).
\<close>

definition zscore_frame :: "dataframe \<Rightarrow> error + float64 list list" where
  "zscore_frame numeric_df =
     (if has_timedelta numeric_df
      then Inl (TypeError ''ufunc multiply cannot use operands with types timedelta64'')
      else Inr (map zscore (to_numpy numeric_df)))"

text \<open>
  \<^verbatim>\<open>np.any(np.abs(z) > 3, axis=1)\<close> on an array \<open>z\<close> of \<open>n\<close> rows, given by its columns:
  per row, whether some column has a score of magnitude above 3. \<^verbatim>\<open>np.mean\<close> of the
  booleans is the share of true ones, and NaN for no row.
\<close>

definition outlier_rows :: "nat \<Rightarrow> float64 list list \<Rightarrow> bool list" where
  "outlier_rows n z = map (\<lambda>k. list_ex (\<lambda>col. flt (Fl 3) (fabs (col ! k))) z) [0..<n]"

definition np_mean :: "bool list \<Rightarrow> float64" where
  "np_mean bs =
     (if bs = [] then NaN else Fl (real (length (filter id bs)) / real (length bs)))"

text \<open>\<^verbatim>\<open>df.isnull().any().sum()\<close>: the number of columns with a missing value.\<close>

definition missing_values :: "dataframe \<Rightarrow> nat" where
  "missing_values df =
     length (filter (\<lambda>i. list_ex isnull (column_at df i)) [0..<length (columns df)])"

definition scaler_recommendation :: "dataframe \<Rightarrow> error + (string \<times> string) list" where
  "scaler_recommendation df =
     (let numeric_df = select_number df in
      bind (zscore_frame numeric_df) (\<lambda>z.
       let outliers = outlier_rows (length (rows numeric_df)) z;
           outlier_proportion = np_mean outliers;
           recommendations =
             dict_set [] ''svm''
               (if flt (Fl (5 / 100)) outlier_proportion \<or> missing_values df > 0
                then ''RobustScaler'' else ''StandardScaler'');
           recommendations = dict_set recommendations ''xgboost'' ''MinMaxScaler''
       in Inr (dict_set recommendations ''cnn'' ''MinMaxScaler + Sigmoid'')))"

subsection \<open>The scalers of scikit-learn\<close>

text \<open>
  Each scaler works on the columns of the array one by one and skips NaN when it
  fits. A scale of zero (a constant column) is replaced by one.
  \<^item> \<^verbatim>\<open>StandardScaler\<close>: \<^verbatim>\<open>mean_\<close> and the population standard deviation as \<^verbatim>\<open>scale_\<close>,
    \<^verbatim>\<open>transform\<close> gives \<^verbatim>\<open>(X - mean_) / scale_\<close>;
  \<^item> \<^verbatim>\<open>MinMaxScaler\<close>: \<^verbatim>\<open>scale_ = 1 / (data_max_ - data_min_)\<close> and
    \<^verbatim>\<open>min_ = 0 - data_min_ * scale_\<close>, \<^verbatim>\<open>transform\<close> gives \<^verbatim>\<open>X * scale_ + min_\<close>;
  \<^item> \<^verbatim>\<open>RobustScaler\<close>: the median as \<^verbatim>\<open>center_\<close> and the interquartile range as
    \<^verbatim>\<open>scale_\<close> (\<^verbatim>\<open>np.nanpercentile\<close>, linear interpolation), \<^verbatim>\<open>transform\<close> gives
    \<^verbatim>\<open>(X - center_) / scale_\<close>.
  Fitting and transforming validate the input and make it an array of doubles: at
  least one row and one column, and for \<^verbatim>\<open>transform\<close> as many columns as were fitted,
  \<^verbatim>\<open>ValueError\<close> otherwise. A timedelta64 column is not accepted as a column of doubles;
  the model has the validation raise \<^verbatim>\<open>TypeError\<close> for it.
\<close>

datatype scaler_kind = Standard | MinMax | Robust

definition handle_zeros :: "real \<Rightarrow> real" where
  "handle_zeros s = (if s = 0 then 1 else s)"

definition percentile :: "real list \<Rightarrow> real \<Rightarrow> real" where
  "percentile v q =
     (let s = sort v; pos = q / 100 * real (length s - 1); lo = nat \<lfloor>pos\<rfloor>;
          hi = min (lo + 1) (length s - 1)
      in s ! lo + (pos - real lo) * (s ! hi - s ! lo))"

definition fit_column :: "scaler_kind \<Rightarrow> float64 list \<Rightarrow> float64 \<times> float64" where
  "fit_column kind xs =
     (let v = reals xs; n = real (length v) in
      if v = [] then (NaN, NaN)
      else case kind of
        Standard \<Rightarrow>
          (let m = sum_list v / n in
           (Fl m, Fl (handle_zeros (sqrt (sum_list (map (\<lambda>x. (x - m)\<^sup>2) v) / n)))))
      | MinMax \<Rightarrow>
          (let data_min = fold min (tl v) (hd v); data_max = fold max (tl v) (hd v);
               scale = 1 / handle_zeros (data_max - data_min)
           in (Fl (0 - data_min * scale), Fl scale))
      | Robust \<Rightarrow>
          (Fl (percentile v 50), Fl (handle_zeros (percentile v 75 - percentile v 25))))"

definition transform_value :: "scaler_kind \<Rightarrow> float64 \<times> float64 \<Rightarrow> float64 \<Rightarrow> float64" where
  "transform_value kind p x =
     (case kind of
        MinMax \<Rightarrow> fadd (fmul x (snd p)) (fst p)
      | _ \<Rightarrow> fdiv (fsub x (fst p)) (snd p))"

definition make_scaler :: "scaler_kind \<Rightarrow> (float64 \<times> float64) list \<Rightarrow> scaler" where
  "make_scaler kind ps =
     (case kind of Standard \<Rightarrow> StandardScaler ps | MinMax \<Rightarrow> MinMaxScaler ps
      | Robust \<Rightarrow> RobustScaler ps)"

fun scaler_parts :: "scaler \<Rightarrow> scaler_kind \<times> (float64 \<times> float64) list" where
  "scaler_parts (StandardScaler ps) = (Standard, ps)"
| "scaler_parts (MinMaxScaler ps) = (MinMax, ps)"
| "scaler_parts (RobustScaler ps) = (Robust, ps)"

definition check_array :: "dataframe \<Rightarrow> error + float64 list list" where
  "check_array numeric_df =
     (if has_timedelta numeric_df then Inl (TypeError ''cannot convert timedelta64 to float64'')
      else if rows numeric_df = [] \<or> columns numeric_df = []
      then Inl (ValueError ''Found array with 0 sample(s) or 0 feature(s)'')
      else Inr (to_numpy numeric_df))"

definition transform :: "scaler \<Rightarrow> dataframe \<Rightarrow> error + float64 list list" where
  "transform s numeric_df =
     bind (check_array numeric_df) (\<lambda>X.
       let (kind, ps) = scaler_parts s in
       if length X \<noteq> length ps then Inl (ValueError ''X has a different number of features'')
       else Inr (map2 (\<lambda>p col. map (transform_value kind p) col) ps X))"

definition fit_transform ::
  "scaler_kind \<Rightarrow> dataframe \<Rightarrow> error + scaler \<times> float64 list list" where
  "fit_transform kind numeric_df =
     bind (check_array numeric_df) (\<lambda>X.
       let s = make_scaler kind (map (fit_column kind) X) in
       bind (transform s numeric_df) (\<lambda>scaled. Inr (s, scaled)))"

subsection \<open>\<^verbatim>\<open>apply_scaling\<close>\<close>

fun sigmoid :: "float64 \<Rightarrow> float64" where
  "sigmoid (Fl x) = Fl (1 / (1 + exp (- x)))"
| "sigmoid NaN = NaN"

text \<open>
  Lines 248 to 253: the scaled array becomes a frame with the columns of \<open>numeric_df\<close>
  and the index of \<^verbatim>\<open>df\<close>, and every column of \<^verbatim>\<open>df\<close> whose name is not among them is
  appended to it. The scaled columns are float64.
\<close>

definition scaled_frame :: "dataframe \<Rightarrow> dataframe \<Rightarrow> float64 list list \<Rightarrow> dataframe" where
  "scaled_frame df numeric_df scaled_data =
     (let others = filter (\<lambda>i. fst (columns df ! i) \<notin> set (column_names numeric_df))
                     [0..<length (columns df)] in
      \<lparr>columns = map (\<lambda>(c, t). (c, FloatT)) (columns numeric_df)
                  @ map (\<lambda>i. columns df ! i) others,
       rows = map (\<lambda>(k, r). (fst r, map (\<lambda>col. Number (col ! k)) scaled_data
                                      @ map (\<lambda>i. cell_at i (snd r)) others))
                  (enumerate 0 (rows df))\<rparr>)"

definition apply_scaling ::
  "cli \<Rightarrow> store \<Rightarrow> dataframe \<Rightarrow> string \<Rightarrow> error + dataframe \<times> cli \<times> store" where
  "apply_scaling self st df scaler_type =
     (let numeric_df = select_number df in
      bind
        (if \<not> one_line_processing self then
           bind
             (if scaler_type = ''StandardScaler'' then fit_transform Standard numeric_df
              else if scaler_type = ''MinMaxScaler'' then fit_transform MinMax numeric_df
              else if scaler_type = ''RobustScaler'' then fit_transform Robust numeric_df
              else if scaler_type = ''MinMaxScaler + Sigmoid'' then
                bind (fit_transform MinMax numeric_df) (\<lambda>(s, scaled_data).
                  Inr (s, map (map sigmoid) scaled_data))
              else Inl (ValueError (''Unsupported scaler type: '' @ scaler_type)))
             (\<lambda>(s, scaled_data).
                let (self1, st1) = save_borders (self\<lparr>scaler := Some s\<rparr>) st
                in Inr (scaled_data, self1, st1))
         else
           (let self1 = load_borders self st in
            case scaler self1 of
              None \<Rightarrow> Inl (AttributeError ''NoneType object has no attribute transform'')
            | Some s \<Rightarrow>
                bind (transform s numeric_df) (\<lambda>scaled_data. Inr (scaled_data, self1, st))))
        (\<lambda>(scaled_data, self1, st1). Inr (scaled_frame df numeric_df scaled_data, self1, st1)))"

subsection \<open>The recommendation policy in the words of the specification\<close>

text \<open>
  The z-score of the value in row \<open>k\<close> of the column at position \<open>i\<close>: the value less
  the mean of the column, over the population standard deviation of the column. It is
  defined for a column without NaN whose deviation is not zero.
\<close>

definition z_score :: "dataframe \<Rightarrow> nat \<Rightarrow> nat \<Rightarrow> real option" where
  "z_score df i k =
     (let xs = map (\<lambda>r. array_value (cell_at i (snd r))) (rows df);
          v = map val xs; n = real (length v); m = sum_list v / n;
          s = sqrt (sum_list (map (\<lambda>x. (x - m)\<^sup>2) v) / n)
      in if NaN \<in> set xs \<or> s = 0 then None else Some ((v ! k - m) / s))"

text \<open>Row \<open>k\<close> has a z-score of magnitude above 3 in some float64 or int64 column.\<close>

definition any_z_score_above_3 :: "dataframe \<Rightarrow> nat \<Rightarrow> bool" where
  "any_z_score_above_3 df k =
     list_ex (\<lambda>i. snd (columns df ! i) \<in> {FloatT, IntT}
                   \<and> (case z_score df i k of Some z \<Rightarrow> 3 < \<bar>z\<bar> | None \<Rightarrow> False))
       [0..<length (columns df)]"

text \<open>The fraction of such rows; zero for a frame without rows.\<close>

definition outlier_fraction :: "dataframe \<Rightarrow> real" where
  "outlier_fraction df =
     (if rows df = [] then 0
      else real (length (filter (any_z_score_above_3 df) [0..<length (rows df)]))
             / real (length (rows df)))"

text \<open>Some cell of the frame is missing.\<close>

definition has_missing :: "dataframe \<Rightarrow> bool" where
  "has_missing df =
     (\<exists>i < length (columns df). \<exists>r \<in> set (rows df). isnull (cell_at i (snd r)))"

text \<open>A frame with a missing value, and a frame of 17 rows with one extreme value.\<close>

definition nan_frame :: dataframe where
  "nan_frame = \<lparr>columns = [(''x'', FloatT)], rows = [(0, [Number (Fl 1)]), (1, [Number NaN])]\<rparr>"

definition spike_frame :: dataframe where
  "spike_frame = column_x [0, 0, 0, 0, 0, 0, 0, 0, 0, 0, 0, 0, 0, 0, 0, 0, 17]"

subsection \<open>Min-max scaling and the sigmoid in the words of the specification\<close>




section \<open>Properties\<close>

subsection \<open>Outlier removal\<close>

lemma sequence_nth:
  "sequence ms = Inr ys \<Longrightarrow> length ys = length ms \<and> (\<forall>j<length ms. ms ! j = Inr (ys ! j))"
proof (induction ms arbitrary: ys)
  case Nil
  then show ?case by simp
next
  case (Cons m ms)
  from Cons.prems obtain x xs where m: "m = Inr x" and xs: "sequence ms = Inr xs" and ys: "ys = x # xs"
    by (auto split: sum.splits)
  from Cons.IH[OF xs] have ih: "length xs = length ms" "\<forall>j<length ms. ms ! j = Inr (xs ! j)"
    by simp_all
  show ?case
  proof (intro conjI allI impI)
    show "length ys = length (m # ms)" using ih(1) ys by simp
    fix j assume "j < length (m # ms)"
    then show "(m # ms) ! j = Inr (ys ! j)"
      using ih(2) m ys by (cases j) simp_all
  qed
qed

lemma compare_column_Inr:
  assumes "compare_column op t cs b = Inr bs"
  shows "length bs = length cs" and "\<And>j. j < length cs \<Longrightarrow> cell_compare op t (cs ! j) b = Inr (bs ! j)"
proof -
  from assms have s: "sequence (map (\<lambda>c. cell_compare op t c b) cs) = Inr bs"
    by (simp add: compare_column_def split: if_splits)
  from sequence_nth[OF s] show "length bs = length cs" by simp
  fix j assume "j < length cs"
  with sequence_nth[OF s] show "cell_compare op t (cs ! j) b = Inr (bs ! j)" by simp
qed

lemma outlier_condition_Inr:
  assumes "outlier_condition t cs lo hi = Inr cond"
  shows "length cond = length cs"
    and "\<And>j. j < length cs \<Longrightarrow> \<not> cond ! j \<Longrightarrow> not_outside t lo hi (cs ! j)"
    and "\<And>j. j < length cs \<Longrightarrow> cond ! j \<longleftrightarrow> outside t lo hi (cs ! j)"
proof -
  from assms obtain below above where
    b: "compare_column Lt t cs lo = Inr below" and
    a: "compare_column Gt t cs hi = Inr above" and
    c: "cond = map2 (\<or>) below above"
    by (auto simp: outlier_condition_def bind_def split: sum.splits)
  note lb = compare_column_Inr[OF b] and la = compare_column_Inr[OF a]
  show "length cond = length cs" using c lb(1) la(1) by simp
  have n: "cond ! j = (below ! j \<or> above ! j)" if "j < length cs" for j
    using that c lb(1) la(1) by simp
  show "not_outside t lo hi (cs ! j)" if "j < length cs" "\<not> cond ! j" for j
    using that n[of j] lb(2)[of j] la(2)[of j] by (simp add: not_outside_def)
  show "cond ! j \<longleftrightarrow> outside t lo hi (cs ! j)" if "j < length cs" for j
    using that n[of j] lb(2)[of j] la(2)[of j] by (simp add: outside_def)
qed

lemma drop_index_Inr: "drop_index ls xs = Inr ys \<Longrightarrow> ys = filter (\<lambda>r. fst r \<notin> set ls) xs"
  by (auto simp: drop_index_def split: if_splits)

lemma none_outside_Cons:
  "none_outside ((c, lo, hi) # bs) df \<longleftrightarrow>
     (case lookup_column df c of None \<Rightarrow> True | Some (t, cs) \<Rightarrow> \<forall>v \<in> set cs. not_outside t lo hi v)
     \<and> none_outside bs df"
  by (simp add: none_outside_def)

lemma boolean_index_mem:
  assumes "j < length xs" "j < length cond" "cond ! j"
  shows "xs ! j \<in> set (boolean_index xs cond)"
proof -
  from assms(1,2) have "zip xs cond ! j = (xs ! j, cond ! j)" by simp
  moreover from assms(1,2) have "j < length (zip xs cond)" by simp
  ultimately have "(xs ! j, cond ! j) \<in> set (zip xs cond)"
    by (metis nth_mem)
  with assms(3) have "(xs ! j, True) \<in> set (filter snd (zip xs cond))" by simp
  then have "fst (xs ! j, True) \<in> fst ` set (filter snd (zip xs cond))"
    by (rule imageI)
  then show ?thesis by (simp add: boolean_index_def)
qed

lemma boolean_index_elem:
  assumes "x \<in> set (boolean_index xs cond)"
  shows "\<exists>j. j < length xs \<and> j < length cond \<and> cond ! j \<and> xs ! j = x"
proof -
  from assms obtain b where "(x, b) \<in> set (filter snd (zip xs cond))"
    by (auto simp: boolean_index_def)
  then have z: "(x, True) \<in> set (zip xs cond)" by auto
  then obtain j where "j < length (zip xs cond)" "zip xs cond ! j = (x, True)"
    by (auto simp: in_set_conv_nth)
  then show ?thesis by (intro exI[of _ j]) auto
qed

lemma position_lookup:
  "position c (column_names f) = Some i \<Longrightarrow>
     lookup_column f c = Some (snd (columns f ! i), map (\<lambda>r. cell_at i (snd r)) (rows f))"
  by (simp add: lookup_column_def)

lemma lookup_position:
  "lookup_column f c = Some (t, cs) \<Longrightarrow>
     \<exists>i. position c (column_names f) = Some i \<and> t = snd (columns f ! i)
         \<and> cs = map (\<lambda>r. cell_at i (snd r)) (rows f)"
  by (auto simp: lookup_column_def split: option.splits)

text \<open>the index labels dropped at one column are those of its outliers\<close>

lemma dropped_labels:
  assumes lc: "lookup_column f c = Some (t, cs)"
    and oc: "outlier_condition t cs lo hi = Inr cond"
  shows "set (map fst (boolean_index (rows f) cond))
           = fst ` {r \<in> set (rows f). row_outside f r (c, lo, hi)}"
proof -
  from lookup_position[OF lc] obtain i where
    p: "position c (column_names f) = Some i" and t: "t = snd (columns f ! i)"
    and cs: "cs = map (\<lambda>r. cell_at i (snd r)) (rows f)" by blast
  have len: "length cond = length (rows f)"
    using outlier_condition_Inr(1)[OF oc] cs by simp
  have ro: "row_outside f r (c, lo, hi) \<longleftrightarrow> outside t lo hi (cell_at i (snd r))" for r
    by (simp add: row_outside_def p t)
  have nth: "cond ! j \<longleftrightarrow> row_outside f (rows f ! j) (c, lo, hi)" if "j < length (rows f)" for j
    using outlier_condition_Inr(3)[OF oc, of j] that cs by (simp add: ro)
  have "set (boolean_index (rows f) cond) = {r \<in> set (rows f). row_outside f r (c, lo, hi)}"
  proof (intro set_eqI iffI)
    fix r assume "r \<in> set (boolean_index (rows f) cond)"
    from boolean_index_elem[OF this] obtain j where
      j: "j < length (rows f)" "cond ! j" "rows f ! j = r" by blast
    with nth[of j] show "r \<in> {r \<in> set (rows f). row_outside f r (c, lo, hi)}"
      by auto
  next
    fix r assume "r \<in> {r \<in> set (rows f). row_outside f r (c, lo, hi)}"
    then have r: "r \<in> set (rows f)" "row_outside f r (c, lo, hi)" by simp_all
    from r(1) obtain j where j: "j < length (rows f)" "rows f ! j = r"
      by (auto simp: in_set_conv_nth)
    with r(2) nth[of j] have "cond ! j" by simp
    with boolean_index_mem[of j "rows f" cond] j len
    show "r \<in> set (boolean_index (rows f) cond)" by simp
  qed
  then show ?thesis by simp
qed

lemma remove_rows_step:
  assumes lc: "lookup_column f c = Some (t, cs)"
    and oc: "outlier_condition t cs lo hi = Inr cond"
    and r: "r \<in> set (rows f)" "fst r \<notin> set (map fst (boolean_index (rows f) cond))"
    and p: "position c (column_names f) = Some i"
  shows "not_outside t lo hi (cell_at i (snd r))"
proof -
  from lc p have cs: "cs = map (\<lambda>r. cell_at i (snd r)) (rows f)"
    by (simp add: lookup_column_def)
  from r(1) obtain j where j: "j < length (rows f)" "rows f ! j = r"
    by (auto simp: in_set_conv_nth)
  have len: "length cond = length (rows f)"
    using outlier_condition_Inr(1)[OF oc] cs by simp
  have "\<not> cond ! j"
  proof
    assume "cond ! j"
    with j len have "r \<in> set (boolean_index (rows f) cond)"
      using boolean_index_mem[of j "rows f" cond] by simp
    then have "fst r \<in> set (map fst (boolean_index (rows f) cond))"
      by simp
    with r(2) show False by simp
  qed
  moreover have "j < length cs" "cs ! j = cell_at i (snd r)"
    using j cs by simp_all
  ultimately show ?thesis
    using outlier_condition_Inr(2)[OF oc, of j] by simp
qed

lemma remove_rows_inv:
  "remove_rows bs f l = Inr (f', l') \<Longrightarrow>
     columns f' = columns f \<and> set (rows f') \<subseteq> set (rows f) \<and> none_outside bs f'"
proof (induction bs arbitrary: f l)
  case Nil
  then show ?case by (simp add: none_outside_def)
next
  case (Cons b bs)
  obtain c lo hi where b: "b = (c, lo, hi)" by (cases b) auto
  show ?case
  proof (cases "lookup_column f c")
    case None
    with Cons.prems b have rr: "remove_rows bs f l = Inr (f', l')" by simp
    from Cons.IH[OF rr] have ih: "columns f' = columns f" "set (rows f') \<subseteq> set (rows f)" "none_outside bs f'"
      by auto
    from None ih(1) have "lookup_column f' c = None"
      by (simp add: lookup_column_def column_names_def split: option.splits)
    then have "none_outside (b # bs) f'"
      using ih(3) unfolding b by (simp add: none_outside_Cons)
    with ih show ?thesis by simp
  next
    case (Some tc)
    obtain t cs where tc: "tc = (t, cs)" by (cases tc) auto
    from Cons.prems b Some tc obtain cond rows' labels' where
      oc: "outlier_condition t cs lo hi = Inr cond" and
      dr: "drop_index (map fst (boolean_index (rows f) cond)) (rows f) = Inr rows'" and
      rr: "remove_rows bs (f\<lparr>rows := rows'\<rparr>) labels' = Inr (f', l')"
      by (auto simp: bind_def Let_def split: sum.splits)
    from Cons.IH[OF rr] have ih: "columns f' = columns f" "set (rows f') \<subseteq> set rows'" "none_outside bs f'"
      by auto
    note rows' = drop_index_Inr[OF dr]
    from lookup_position[OF Some[unfolded tc]] obtain i where
      p: "position c (column_names f) = Some i" and t: "t = snd (columns f ! i)" by blast
    have "not_outside t lo hi (cell_at i (snd r))" if "r \<in> set (rows f')" for r
    proof -
      from that ih(2) rows' have "r \<in> set (rows f)" "fst r \<notin> set (map fst (boolean_index (rows f) cond))"
        by auto
      then show ?thesis using remove_rows_step[OF _ oc _ _ p] Some tc by simp
    qed
    moreover have "lookup_column f' c = Some (t, map (\<lambda>r. cell_at i (snd r)) (rows f'))"
      using p ih(1) t by (simp add: lookup_column_def column_names_def)
    ultimately have head: "case lookup_column f' c of None \<Rightarrow> True | Some (t, cs) \<Rightarrow> \<forall>v \<in> set cs. not_outside t lo hi v"
      by simp
    have sub: "set (rows f') \<subseteq> set (rows f)"
      using ih(2) rows' by auto
    from head ih(3) have "none_outside (b # bs) f'"
      unfolding b by (simp only: none_outside_Cons)
    with ih(1) sub show ?thesis by simp
  qed
qed

lemma row_outside_columns:
  "columns f' = columns f \<Longrightarrow> row_outside f' r b = row_outside f r b"
  by (simp add: row_outside_def column_names_def split: option.splits)

lemma set_outlier_labels:
  "set (outlier_labels bs f) = fst ` {r \<in> set (rows f). \<exists>b \<in> set bs. row_outside f r b}"
  by (simp add: outlier_labels_def list_ex_iff)

lemma outlier_labels_Cons:
  "set (outlier_labels (b # bs) f)
     = fst ` {r \<in> set (rows f). row_outside f r b} \<union> set (outlier_labels bs f)"
  unfolding set_outlier_labels by auto

lemma outlier_labels_absent:
  "lookup_column f c = None \<Longrightarrow> set (outlier_labels ((c, lo, hi) # bs) f) = set (outlier_labels bs f)"
proof -
  assume "lookup_column f c = None"
  then have "position c (column_names f) = None"
    by (simp add: lookup_column_def split: option.splits)
  then have "\<not> row_outside f r (c, lo, hi)" for r
    by (simp add: row_outside_def)
  then show ?thesis unfolding outlier_labels_Cons by simp
qed

lemma outlier_labels_filtered:
  "set (outlier_labels bs (f\<lparr>rows := filter (\<lambda>r. fst r \<notin> D) (rows f)\<rparr>))
     = set (outlier_labels bs f) - D"
proof -
  let ?f1 = "f\<lparr>rows := filter (\<lambda>r. fst r \<notin> D) (rows f)\<rparr>"
  have c: "row_outside ?f1 r b = row_outside f r b" for r b
    by (rule row_outside_columns) simp
  show ?thesis
    unfolding set_outlier_labels by (auto simp: c)
qed

lemma filter_twice:
  "(\<And>x. (P x \<and> Q x) = R x) \<Longrightarrow> filter P (filter Q xs) = filter R xs"
  by (induction xs) auto

lemma remove_rows_exact:
  "remove_rows bs f l = Inr (f', l') \<Longrightarrow>
     f' = f\<lparr>rows := filter (\<lambda>r. fst r \<notin> set (outlier_labels bs f)) (rows f)\<rparr>
     \<and> l' = filter (\<lambda>p. fst p \<notin> set (outlier_labels bs f)) l"
proof (induction bs arbitrary: f l)
  case Nil
  then show ?case by (simp add: outlier_labels_def)
next
  case (Cons b bs)
  obtain c lo hi where b: "b = (c, lo, hi)" by (cases b) auto
  show ?case
  proof (cases "lookup_column f c")
    case None
    with Cons.prems b have rr: "remove_rows bs f l = Inr (f', l')" by simp
    from Cons.IH[OF rr] show ?thesis
      unfolding b outlier_labels_absent[OF None] .
  next
    case (Some tc)
    obtain t cs where tc: "tc = (t, cs)" by (cases tc) auto
    let ?D = "set (map fst (boolean_index (rows f) cond))"
    from Cons.prems b Some tc obtain cond rows' labels' where
      oc: "outlier_condition t cs lo hi = Inr cond" and
      dr: "drop_index (map fst (boolean_index (rows f) cond)) (rows f) = Inr rows'" and
      dl: "drop_index (map fst (boolean_index (rows f) cond)) l = Inr labels'" and
      rr: "remove_rows bs (f\<lparr>rows := rows'\<rparr>) labels' = Inr (f', l')"
      by (auto simp: bind_def Let_def split: sum.splits)
    define D where "D = set (map fst (boolean_index (rows f) cond))"
    have D: "D = fst ` {r \<in> set (rows f). row_outside f r (c, lo, hi)}"
      unfolding D_def by (rule dropped_labels[OF Some[unfolded tc] oc])
    have rows': "rows' = filter (\<lambda>r. fst r \<notin> D) (rows f)"
      and labels': "labels' = filter (\<lambda>p. fst p \<notin> D) l"
      using drop_index_Inr[OF dr] drop_index_Inr[OF dl] by (simp_all add: D_def)
    let ?f1 = "f\<lparr>rows := filter (\<lambda>r. fst r \<notin> D) (rows f)\<rparr>"
    from Cons.IH[OF rr[unfolded rows' labels']]
    have ih1: "f' = ?f1\<lparr>rows := filter (\<lambda>r. fst r \<notin> set (outlier_labels bs ?f1)) (rows ?f1)\<rparr>"
      and ih2: "l' = filter (\<lambda>p. fst p \<notin> set (outlier_labels bs ?f1)) (filter (\<lambda>p. fst p \<notin> D) l)"
      by simp_all
    have L1: "set (outlier_labels bs ?f1) = set (outlier_labels bs f) - D"
      by (rule outlier_labels_filtered)
    have L: "set (outlier_labels (b # bs) f) = D \<union> set (outlier_labels bs f)"
      unfolding b outlier_labels_Cons D ..
    have "filter (\<lambda>r. fst r \<notin> set (outlier_labels bs f) - D) (filter (\<lambda>r. fst r \<notin> D) (rows f))
            = filter (\<lambda>r. fst r \<notin> set (outlier_labels (b # bs) f)) (rows f)"
      by (rule filter_twice) (auto simp: L)
    then have "f' = f\<lparr>rows := filter (\<lambda>r. fst r \<notin> set (outlier_labels (b # bs) f)) (rows f)\<rparr>"
      unfolding ih1 L1 by simp
    moreover have "l' = filter (\<lambda>p. fst p \<notin> set (outlier_labels (b # bs) f)) l"
      unfolding ih2 L1 by (rule filter_twice) (auto simp: L)
    ultimately show ?thesis by simp
  qed
qed

lemma sequence_all_Inr:
  "\<forall>m \<in> set ms. \<exists>x. m = Inr x \<Longrightarrow> \<exists>xs. sequence ms = Inr xs"
proof (induction ms)
  case Nil
  then show ?case by simp
next
  case (Cons m ms)
  then obtain x xs where "m = Inr x" "sequence ms = Inr xs" by auto
  then show ?case by simp
qed

lemma cell_compare_valid:
  "t \<noteq> ObjectT \<Longrightarrow> valid_comparison t b \<Longrightarrow> \<exists>v. cell_compare op t c b = Inr v"
  by (cases t; cases b; cases c) (auto simp: valid_comparison_def cell_compare_def)

lemma compare_column_valid:
  assumes "t \<noteq> ObjectT" "valid_comparison t b"
  shows "\<exists>vs. compare_column op t cs b = Inr vs"
proof -
  have "\<forall>m \<in> set (map (\<lambda>c. cell_compare op t c b) cs). \<exists>x. m = Inr x"
    using cell_compare_valid[OF assms] by auto
  from sequence_all_Inr[OF this] show ?thesis
    using assms(2) by (simp add: compare_column_def)
qed

lemma outlier_condition_valid:
  assumes "t \<noteq> ObjectT" "valid_comparison t lo" "valid_comparison t hi"
  shows "\<exists>cond. outlier_condition t cs lo hi = Inr cond"
proof -
  from compare_column_valid[OF assms(1,2)] obtain b where "compare_column Lt t cs lo = Inr b" by blast
  moreover from compare_column_valid[OF assms(1,3)] obtain a where "compare_column Gt t cs hi = Inr a" by blast
  ultimately show ?thesis by (simp add: outlier_condition_def bind_def)
qed

lemma comparable_Cons:
  "comparable ((c, lo, hi) # bs) df \<longleftrightarrow>
     (case lookup_column df c of None \<Rightarrow> True
      | Some (t, cs) \<Rightarrow> t \<noteq> ObjectT \<and> valid_comparison t lo \<and> valid_comparison t hi)
     \<and> comparable bs df"
  by (simp add: comparable_def)

lemma lookup_column_rows:
  "lookup_column (df\<lparr>rows := rs\<rparr>) c
     = map_option (\<lambda>(t, cs). (t, map (\<lambda>r. cell_at (the (position c (column_names df))) (snd r)) rs)) (lookup_column df c)"
  by (simp add: lookup_column_def column_names_def split: option.splits)

lemma comparable_rows: "comparable bs df \<Longrightarrow> comparable bs (df\<lparr>rows := rs\<rparr>)"
  unfolding comparable_def by (auto simp: lookup_column_rows split: option.splits)

lemma boolean_index_subset: "set (boolean_index xs cond) \<subseteq> set xs"
  by (auto simp: boolean_index_def dest: set_zip_leftD)

lemma labels_filter:
  assumes "fst ` set xs \<subseteq> fst ` set l"
  shows "fst ` set (filter (\<lambda>r. fst r \<notin> D) xs) \<subseteq> fst ` set (filter (\<lambda>r. fst r \<notin> D) l)"
proof
  fix x assume "x \<in> fst ` set (filter (\<lambda>r. fst r \<notin> D) xs)"
  then obtain r where r: "r \<in> set xs" "fst r \<notin> D" "x = fst r" by auto
  then have "x \<in> fst ` set xs" by simp
  with assms obtain p where p: "p \<in> set l" "fst p = x" by auto
  with r have "p \<in> set (filter (\<lambda>r. fst r \<notin> D) l)" by simp
  with p(2) show "x \<in> fst ` set (filter (\<lambda>r. fst r \<notin> D) l)" by force
qed

text \<open>The loop returns when no comparison can raise and every row has its label.\<close>

lemma remove_rows_total:
  "comparable bs f \<Longrightarrow> fst ` set (rows f) \<subseteq> fst ` set l \<Longrightarrow> \<exists>f' l'. remove_rows bs f l = Inr (f', l')"
proof (induction bs arbitrary: f l)
  case Nil
  then show ?case by simp
next
  case (Cons b bs)
  obtain c lo hi where b: "b = (c, lo, hi)" by (cases b) auto
  from Cons.prems(1) have n: "comparable bs f"
    and h: "case lookup_column f c of None \<Rightarrow> True
      | Some (t, cs) \<Rightarrow> t \<noteq> ObjectT \<and> valid_comparison t lo \<and> valid_comparison t hi"
    by (simp_all add: b comparable_Cons)
  show ?case
  proof (cases "lookup_column f c")
    case None
    with Cons.IH[OF n Cons.prems(2)] b show ?thesis by simp
  next
    case (Some tc)
    obtain t cs where tc: "tc = (t, cs)" by (cases tc) auto
    from h Some tc have v: "t \<noteq> ObjectT" "valid_comparison t lo" "valid_comparison t hi" by simp_all
    from outlier_condition_valid[OF v] obtain cond where oc: "outlier_condition t cs lo hi = Inr cond"
      by blast
    define D where "D = map fst (boolean_index (rows f) cond)"
    have s1: "set D \<subseteq> fst ` set (rows f)"
      unfolding D_def using boolean_index_subset[of "rows f" cond] by auto
    with Cons.prems(2) have s2: "set D \<subseteq> fst ` set l" by blast
    have d1: "drop_index D (rows f) = Inr (filter (\<lambda>r. fst r \<notin> set D) (rows f))"
      using s1 by (simp add: drop_index_def)
    have d2: "drop_index D l = Inr (filter (\<lambda>r. fst r \<notin> set D) l)"
      using s2 by (simp add: drop_index_def)
    let ?f1 = "f\<lparr>rows := filter (\<lambda>r. fst r \<notin> set D) (rows f)\<rparr>"
    have "fst ` set (rows ?f1) \<subseteq> fst ` set (filter (\<lambda>r. fst r \<notin> set D) l)"
      using labels_filter[OF Cons.prems(2)] by simp
    from Cons.IH[OF comparable_rows[OF n] this]
    obtain f' l' where "remove_rows bs ?f1 (filter (\<lambda>r. fst r \<notin> set D) l) = Inr (f', l')" by blast
    then show ?thesis
      using Some tc oc d1 d2 by (simp add: b bind_def Let_def D_def[symmetric])
  qed
qed

lemma map_of_dict_set: "map_of (dict_set d k v) = (map_of d)(k \<mapsto> v)"
  by (induction d) (auto simp: fun_eq_iff)

lemma keys_dict_set:
  "map fst (dict_set d k v) = (if k \<in> set (map fst d) then map fst d else map fst d @ [k])"
  by (induction d) (simp_all, force+)

lemma distinct_dict_set: "distinct (map fst d) \<Longrightarrow> distinct (map fst (dict_set d k v))"
  by (simp only: keys_dict_set split: if_splits) simp

lemma map_of_add_threshold:
  "map_of (add_threshold features k a d) c =
     (if c = a \<and> column_threshold features k c \<noteq> None then column_threshold features k c else map_of d c)"
  by (cases "lookup_column features a")
     (auto simp: add_threshold_def column_threshold_def map_of_dict_set)

lemma distinct_add_threshold:
  "distinct (map fst d) \<Longrightarrow> distinct (map fst (add_threshold features k a d))"
  by (cases "lookup_column features a") (auto simp: add_threshold_def intro: distinct_dict_set)

lemma map_of_fold_add_threshold:
  "map_of (fold (add_threshold features k) cols d) c =
     (if c \<in> set cols \<and> column_threshold features k c \<noteq> None
      then column_threshold features k c else map_of d c)"
proof (induction cols arbitrary: d)
  case Nil
  then show ?case by simp
next
  case (Cons a cols)
  show ?case
    by (cases "column_threshold features k c") (auto simp: Cons.IH map_of_add_threshold)
qed

lemma distinct_fold_add_threshold:
  "distinct (map fst d) \<Longrightarrow> distinct (map fst (fold (add_threshold features k) cols d))"
  by (induction cols arbitrary: d) (simp_all add: distinct_add_threshold)

lemma map_of_thresholds:
  "map_of (thresholds features k) c =
     (if c \<in> set (numeric_columns features) then column_threshold features k c else None)"
  by (cases "column_threshold features k c") (auto simp: thresholds_def map_of_fold_add_threshold)

lemma distinct_thresholds: "distinct (map fst (thresholds features k))"
  by (simp add: thresholds_def distinct_fold_add_threshold)

lemma thresholds_entry:
  assumes "(c, lo, hi) \<in> set (thresholds features k)"
  shows "c \<in> set (numeric_columns features) \<and> column_threshold features k c = Some (lo, hi)"
proof -
  from assms distinct_thresholds have "map_of (thresholds features k) c = Some (lo, hi)"
    by (rule map_of_is_SomeI[rotated])
  then show ?thesis
    by (simp add: map_of_thresholds split: if_splits)
qed

lemma position_None_iff: "position c names = None \<longleftrightarrow> c \<notin> set names"
  by (induction names) auto

lemma numeric_column_lookup:
  assumes "c \<in> set (numeric_columns df)"
  shows "\<exists>t cs. lookup_column df c = Some (t, cs)"
proof -
  from assms obtain t where "(c, t) \<in> set (columns df)"
    by (auto simp: numeric_columns_def)
  then have "fst (c, t) \<in> fst ` set (columns df)"
    by (rule imageI)
  then have "c \<in> set (column_names df)"
    by (simp add: column_names_def)
  then have "position c (column_names df) \<noteq> None"
    using position_None_iff[of c "column_names df"] by blast
  then show ?thesis
    by (auto simp: lookup_column_def)
qed

lemma not_outside_in_bounds:
  assumes "not_outside t lo hi v" "\<not> isnull_scalar lo" "\<not> isnull_scalar hi" "has_value t v"
  shows "in_bounds t lo hi v"
proof (cases "t = TimedeltaT")
  case True
  from assms(4) True obtain d where v: "v = Duration d"
    by (cases v) (simp_all add: has_value_def)
  from assms(1,2,3) show ?thesis
    unfolding True v
    by (cases lo; cases hi) (auto simp: not_outside_def cell_compare_def in_bounds_def)
next
  case False
  with assms(4) have t: "t = FloatT \<or> t = IntT \<or> t = BoolT" and a: "array_value v \<noteq> NaN"
    by (cases t; simp add: has_value_def)+
  from a obtain x where x: "array_value v = Fl x" by (cases "array_value v") auto
  from t assms(1,2,3) show ?thesis
    by (cases lo; cases hi)
       (auto simp: not_outside_def cell_compare_def in_bounds_def x
             elim!: flt.elims fle.elims split: float64.splits)
qed

lemma none_outside_values_in_bounds:
  assumes "none_outside bs df"
  shows "values_in_bounds bs df"
  unfolding values_in_bounds_def
proof (intro ballI)
  fix e assume e: "e \<in> set bs"
  obtain c lo hi where ec: "e = (c, lo, hi)" by (cases e) auto
  from assms e ec have h: "case lookup_column df c of None \<Rightarrow> True | Some (t, cs) \<Rightarrow> \<forall>v\<in>set cs. not_outside t lo hi v"
    unfolding none_outside_def by auto
  show "case e of (c, lo, hi) \<Rightarrow> case lookup_column df c of None \<Rightarrow> True
     | Some (t, cs) \<Rightarrow> \<forall>v\<in>set cs. \<not> isnull_scalar lo \<and> \<not> isnull_scalar hi \<and> has_value t v \<longrightarrow> in_bounds t lo hi v"
  proof (cases "lookup_column df c")
    case None
    then show ?thesis by (simp add: ec)
  next
    case (Some tc)
    obtain t cs where tc: "tc = (t, cs)" by (cases tc) auto
    have "in_bounds t lo hi v" if "v \<in> set cs" "\<not> isnull_scalar lo" "\<not> isnull_scalar hi" "has_value t v" for v
    proof -
      from h Some tc that(1) have "not_outside t lo hi v" by simp
      then show ?thesis using that(2,3,4) by (rule not_outside_in_bounds)
    qed
    then show ?thesis using Some tc ec by simp
  qed
qed

lemma null_bound_never_true:
  "isnull_scalar b \<Longrightarrow> cell_compare op t c b \<noteq> Inr True"
  by (cases b rule: isnull_scalar.cases; cases t; cases c rule: isnull.cases; cases op)
     (simp_all add: cell_compare_def object_compare_def)

lemma null_bounds_not_outside:
  "isnull_scalar lo \<Longrightarrow> isnull_scalar hi \<Longrightarrow> \<not> row_outside df r (c, lo, hi)"
  by (simp add: row_outside_def outside_def null_bound_never_true split: option.splits)

lemma threshold_null:
  "observed t cs < 2 \<Longrightarrow> isnull_scalar (fst (threshold t cs k)) \<and> isnull_scalar (snd (threshold t cs k))"
  by (cases "t = TimedeltaT"; cases "mean cs"; cases "mean_timedelta cs")
     (simp_all add: observed_def threshold_def std_def std_timedelta_def Let_def)

lemma outliers_save_borders: "outliers (fst (save_borders self st)) = outliers self"
  by (simp add: save_borders_def Let_def split: prod.splits if_splits)

lemma remove_outliers_training:
  assumes "\<not> one_line_processing self"
    and "remove_outliers self st features labels k = Inr ((features', labels'), self', st')"
  shows "outliers self' = Some (thresholds features k)"
    and "remove_rows (thresholds features k) features labels = Inr (features', labels')"
proof -
  let ?p = "save_borders (self\<lparr>outliers := Some (thresholds features k)\<rparr>) st"
  have o: "outliers (fst ?p) = Some (thresholds features k)"
    by (simp add: outliers_save_borders)
  from assms have r: "(case outliers (fst ?p) of
           None \<Rightarrow> Inl (ValueError ''Outlier thresholds must be available for outlier removal.'')
         | Some [] \<Rightarrow> Inl (ValueError ''Outlier thresholds must be available for outlier removal.'')
         | Some bs \<Rightarrow> bind (remove_rows bs features labels) (\<lambda>r. Inr (r, fst ?p, snd ?p)))
       = Inr ((features', labels'), self', st')"
    by (simp add: remove_outliers_def split_beta)
  from r o have b: "bind (remove_rows (thresholds features k) features labels) (\<lambda>r. Inr (r, fst ?p, snd ?p))
      = Inr ((features', labels'), self', st')"
    by (cases "thresholds features k") simp_all
  then show "remove_rows (thresholds features k) features labels = Inr (features', labels')"
    by (auto simp: bind_def split: sum.splits)
  from b have "self' = fst ?p"
    by (auto simp: bind_def split: sum.splits)
  with o show "outliers self' = Some (thresholds features k)" by simp
qed

lemma std_example: "std (map (\<lambda>x. Number (Fl x)) [1, 2, 3, 4, 100]) = Fl (sqrt (3805 / 2))"
  by (simp add: std_def present_def Let_def power2_eq_square)

lemma mean_example: "mean (map (\<lambda>x. Number (Fl x)) [1, 2, 3, 4, 100]) = Fl 22"
  by (simp add: mean_def present_def Let_def)

lemma sqrt_example: "436 / 10 < sqrt (3805 / 2)" "sqrt (3805 / 2) < 437 / 10"
proof -
  show "436 / 10 < sqrt (3805 / 2)"
    by (rule real_less_rsqrt) (simp add: power2_eq_square)
  show "sqrt (3805 / 2) < 437 / 10"
    by (rule real_less_lsqrt) (simp_all add: power2_eq_square)
qed

lemma lookup_column_x:
  "lookup_column (column_x xs) ''x'' = Some (FloatT, map (\<lambda>x. Number (Fl x)) xs)"
proof -
  have "map (\<lambda>r. cell_at 0 (snd r)) (map (\<lambda>(i, x). (i, [Number (Fl x)])) ys) = map (\<lambda>x. Number (Fl x)) (map snd ys)" for ys :: "(nat \<times> real) list"
    by (induction ys) (auto simp: cell_at_def)
  from this[of "enumerate 0 xs"]
  have "map (\<lambda>r. cell_at 0 (snd r)) (rows (column_x xs)) = map (\<lambda>x. Number (Fl x)) xs"
    by (simp add: column_x_def)
  moreover have "position ''x'' (column_names (column_x xs)) = Some 0" "columns (column_x xs) ! 0 = (''x'', FloatT)"
    by (simp_all add: column_x_def column_names_def)
  ultimately show ?thesis
    by (simp add: lookup_column_def)
qed

lemma numeric_columns_x: "numeric_columns (column_x xs) = [''x'']"
  by (simp add: numeric_columns_def column_x_def is_number_def)

lemma thresholds_column_x:
  "thresholds (column_x xs) k = [(''x'', threshold FloatT (map (\<lambda>x. Number (Fl x)) xs) k)]"
  by (simp add: thresholds_def numeric_columns_x add_threshold_def lookup_column_x)

lemma thresholds_example:
  "thresholds (column_x [1, 2, 3, 4, 100]) 8 =
     [(''x'', Float (Fl (22 - 8 * sqrt (3805 / 2))), Float (Fl (22 + 8 * sqrt (3805 / 2))))]"
  by (simp only: thresholds_column_x threshold_def std_example mean_example Let_def) simp

lemma boolean_index_simps:
  "boolean_index [] cond = []"
  "boolean_index xs [] = []"
  "boolean_index (x # xs) (b # bs) = (if b then x # boolean_index xs bs else boolean_index xs bs)"
  by (simp_all add: boolean_index_def)

lemma drop_index_Nil: "drop_index [] xs = Inr xs"
  by (simp add: drop_index_def)

lemma sequence_map_Inr: "sequence (map (\<lambda>x. Inr (f x)) xs) = Inr (map f xs)"
  by (induction xs) simp_all

lemma compare_numbers:
  "compare_column op FloatT (map (\<lambda>x. Number (Fl x)) xs) (Float b)
     = Inr (map (\<lambda>x. compare_float op (Fl x) b) xs)"
  by (simp add: compare_column_def valid_comparison_def cell_compare_def comp_def sequence_map_Inr)

lemma outlier_condition_numbers:
  "outlier_condition FloatT (map (\<lambda>x. Number (Fl x)) xs) (Float lo) (Float hi)
     = Inr (map (\<lambda>x. flt (Fl x) lo \<or> flt hi (Fl x)) xs)"
  by (simp add: outlier_condition_def compare_numbers bind_def zip_map_map)
     (simp add: map2_map_map[symmetric] zip_same_conv_map del: map2_map_map)

lemma remove_rows_column_x:
  "remove_rows [(''x'', Float lo, Float hi)] (column_x xs) labels =
     (let cond = map (\<lambda>x. flt (Fl x) lo \<or> flt hi (Fl x)) xs;
          outlier_indices = map fst (boolean_index (rows (column_x xs)) cond)
      in bind (drop_index outlier_indices (rows (column_x xs))) (\<lambda>rows'.
         bind (drop_index outlier_indices labels) (\<lambda>labels'.
           Inr ((column_x xs)\<lparr>rows := rows'\<rparr>, labels'))))"
  by (simp add: lookup_column_x outlier_condition_numbers bind_def Let_def split: sum.splits)

lemma remove_outliers_column_x:
  "remove_outliers (init [] False m) empty_store (column_x xs) labels k =
     bind (remove_rows (thresholds (column_x xs) k) (column_x xs) labels)
       (\<lambda>r. Inr (r, (init [] False m)\<lparr>outliers := Some (thresholds (column_x xs) k), outliers_saved := True\<rparr>,
                 empty_store\<lparr>models_dir := True, outliers_file := Some (thresholds (column_x xs) k)\<rparr>))"
  by (simp add: remove_outliers_def init_def empty_store_def save_borders_def thresholds_column_x
      del: remove_rows.simps)

lemma threshold_single: "threshold FloatT [Number (Fl x)] k = (Float NaN, Float NaN)"
  by (simp add: threshold_def mean_def std_def present_def)

lemma rows_column_x_single: "rows (column_x [x]) = [(0, [Number (Fl x)])]"
  by (simp add: column_x_def)

lemma column_x_rows_same: "(column_x xs)\<lparr>rows := rows (column_x xs)\<rparr> = column_x xs"
  by simp

lemma threshold_048:
  "threshold FloatT [Number (Fl 0), Number (Fl 4), Number (Fl 8)] (1 / 2) = (Float (Fl 2), Float (Fl 6))"
proof -
  have "sqrt 16 = 4"
    using real_sqrt_abs[of 4] by simp
  then show ?thesis
    by (simp add: threshold_def mean_def std_def present_def Let_def power2_eq_square)
qed

lemma rows_048: "rows (column_x [0, 4, 8]) = [(0, [Number (Fl 0)]), (1, [Number (Fl 4)]), (2, [Number (Fl 8)])]"
  by (simp add: column_x_def)

lemma remove_outliers_048:
  "remove_outliers (init [] False ''binary'') empty_store (column_x [0, 4, 8]) [(0, 0::int), (1, 1), (2, 0)] (1 / 2) =
     Inr ((column_x [4]\<lparr>rows := [(1, [Number (Fl 4)])]\<rparr>, [(1, 1)]),
          (init [] False ''binary'')\<lparr>outliers := Some [(''x'', Float (Fl 2), Float (Fl 6))], outliers_saved := True\<rparr>,
          empty_store\<lparr>models_dir := True, outliers_file := Some [(''x'', Float (Fl 2), Float (Fl 6))]\<rparr>)"
proof -
  have "remove_rows [(''x'', Float (Fl 2), Float (Fl 6))] (column_x [0, 4, 8]) [(0, 0::int), (1, 1), (2, 0)]
      = Inr (column_x [4]\<lparr>rows := [(1, [Number (Fl 4)])]\<rparr>, [(1, 1)])"
    by (simp add: remove_rows_column_x rows_048 boolean_index_simps drop_index_def bind_def
        del: remove_rows.simps) (simp add: column_x_def)
  then show ?thesis
    by (simp add: remove_outliers_column_x thresholds_column_x threshold_048 bind_def
        del: remove_rows.simps)
qed

lemma all_False_boolean_index: "\<forall>b \<in> set cond. \<not> b \<Longrightarrow> boolean_index xs cond = []"
proof -
  assume a: "\<forall>b \<in> set cond. \<not> b"
  have "filter snd (zip xs cond) = []"
    unfolding filter_empty_conv using a by (auto dest: set_zip_rightD)
  then show ?thesis by (simp add: boolean_index_def)
qed

lemma remove_rows_example:
  "remove_rows [(''x'', Float (Fl (22 - 8 * sqrt (3805 / 2))), Float (Fl (22 + 8 * sqrt (3805 / 2))))]
     (column_x [1, 2, 3, 4, 100]) labels = Inr (column_x [1, 2, 3, 4, 100], labels)"
proof -
  let ?cond = "map (\<lambda>x. flt (Fl x) (Fl (22 - 8 * sqrt (3805 / 2))) \<or> flt (Fl (22 + 8 * sqrt (3805 / 2))) (Fl x)) [1, 2, 3, 4, 100]"
  have "\<forall>b \<in> set ?cond. \<not> b"
    using sqrt_example by simp
  then have "boolean_index (rows (column_x [1, 2, 3, 4, 100])) ?cond = []"
    by (rule all_False_boolean_index)
  then show ?thesis
    by (simp only: remove_rows_column_x Let_def list.map drop_index_Nil bind_def sum.case column_x_rows_same)
qed

lemma outliers_load_borders:
  "outliers_file st = Some bs \<Longrightarrow> outliers (load_borders self st) = Some bs"
  by (simp add: load_borders_def split: option.splits)

lemma remove_rows_single_row:
  assumes "rows f = [(i, cells)]"
    and "comparable bs f"
    and "(c, lo, hi) \<in> set bs"
    and "row_outside f (i, cells) (c, lo, hi)"
  shows "remove_rows bs f [(i, y)] = Inr (f\<lparr>rows := []\<rparr>, [])"
proof -
  have "fst ` set (rows f) \<subseteq> fst ` set [(i, y)]"
    using assms(1) by simp
  from remove_rows_total[OF assms(2) this]
  obtain f' l' where r: "remove_rows bs f [(i, y)] = Inr (f', l')" by blast
  have "i \<in> set (outlier_labels bs f)"
    unfolding set_outlier_labels using assms(1,3,4) by force
  with remove_rows_exact[OF r] assms(1) have "f' = f\<lparr>rows := []\<rparr>" "l' = []"
    by simp_all
  with r show ?thesis by simp
qed

text \<open>
  Claim C4, as amended. After \<^verbatim>\<open>remove_outliers\<close> has run in training mode and
  returned, \<^verbatim>\<open>self.outliers\<close> holds the thresholds computed from the incoming table, and
  the rows removed are exactly the rows that are outside the bounds of some bounded
  column, that is, for which \<open>value < lower_bound\<close> or \<open>value > upper_bound\<close> is true; the
  labels with the index of these rows are removed with them. So no row that remains is
  outside the bounds of a bounded column, and a value that remains and is present lies
  in \<open>[lower_bound, upper_bound]\<close> whenever both bounds are present. Bounds that are both
  missing (NaN, or \<^verbatim>\<open>NaT\<close> for a timedelta64 column) put no row outside, and a column with
  fewer than two values present gets such bounds.
\<close>

theorem remove_outliers_training_keeps_no_outlier:
  assumes "\<not> one_line_processing self"
    and "remove_outliers self st features labels k = Inr ((features', labels'), self', st')"
  shows "outliers self' = Some (thresholds features k)
       \<and> features' = features\<lparr>rows :=
            filter (\<lambda>r. fst r \<notin> set (outlier_labels (thresholds features k) features)) (rows features)\<rparr>
       \<and> labels' = filter (\<lambda>p. fst p \<notin> set (outlier_labels (thresholds features k) features)) labels
       \<and> none_outside (thresholds features k) features'
       \<and> values_in_bounds (thresholds features k) features'
       \<and> (\<forall>(c, lo, hi) \<in> set (thresholds features k).
            isnull_scalar lo \<and> isnull_scalar hi \<longrightarrow>
            (\<forall>r \<in> set (rows features). \<not> row_outside features r (c, lo, hi)))
       \<and> (\<forall>c \<in> set (numeric_columns features). \<forall>t cs.
            lookup_column features c = Some (t, cs) \<and> observed t cs < 2 \<longrightarrow>
            (\<exists>lo hi. map_of (thresholds features k) c = Some (lo, hi)
                     \<and> isnull_scalar lo \<and> isnull_scalar hi))"
proof -
  note t = remove_outliers_training[OF assms]
  note e = remove_rows_exact[OF t(2)]
  from remove_rows_inv[OF t(2)] have n: "none_outside (thresholds features k) features'"
    by simp
  have a: "\<forall>(c, lo, hi) \<in> set (thresholds features k).
            isnull_scalar lo \<and> isnull_scalar hi \<longrightarrow>
            (\<forall>r \<in> set (rows features). \<not> row_outside features r (c, lo, hi))"
    using null_bounds_not_outside by blast
  have b: "\<exists>lo hi. map_of (thresholds features k) c = Some (lo, hi) \<and> isnull_scalar lo \<and> isnull_scalar hi"
    if "c \<in> set (numeric_columns features)" "lookup_column features c = Some (t, cs)" "observed t cs < 2"
    for c t cs
    using that threshold_null[OF that(3), of k]
    by (simp add: map_of_thresholds column_threshold_def)
       (metis prod.collapse)
  from t(1) e n none_outside_values_in_bounds[OF n] a b show ?thesis
    by blast
qed

text \<open>
  The theorem at a table with the values 0, 4 and 8 and the multiplier 1/2: the bounds
  are 2 and 6, the rows 0 and 8 are dropped with their labels, the row 4 remains.
\<close>

theorem remove_outliers_training_keeps_no_outlier_witness:
  "\<not> one_line_processing (init [] False ''binary'')
   \<and> remove_outliers (init [] False ''binary'') empty_store (column_x [0, 4, 8]) [(0, 0::int), (1, 1), (2, 0)] (1 / 2) =
     Inr ((column_x [4]\<lparr>rows := [(1, [Number (Fl 4)])]\<rparr>, [(1, 1)]),
          (init [] False ''binary'')\<lparr>outliers := Some [(''x'', Float (Fl 2), Float (Fl 6))], outliers_saved := True\<rparr>,
          empty_store\<lparr>models_dir := True, outliers_file := Some [(''x'', Float (Fl 2), Float (Fl 6))]\<rparr>)
   \<and> outlier_labels [(''x'', Float (Fl 2), Float (Fl 6))] (column_x [0, 4, 8]) = [0, 2]
   \<and> none_outside [(''x'', Float (Fl 2), Float (Fl 6))] (column_x [4]\<lparr>rows := [(1, [Number (Fl 4)])]\<rparr>)
   \<and> values_in_bounds [(''x'', Float (Fl 2), Float (Fl 6))] (column_x [4]\<lparr>rows := [(1, [Number (Fl 4)])]\<rparr>)
   \<and> in_bounds FloatT (Float (Fl 2)) (Float (Fl 6)) (Number (Fl 4))"
proof -
  have h: "\<not> one_line_processing (init [] False ''binary'')"
    by (simp add: init_def)
  have o: "outlier_labels [(''x'', Float (Fl 2), Float (Fl 6))] (column_x [0, 4, 8]) = [0, 2]"
    by (simp add: outlier_labels_def rows_048 row_outside_def column_x_def column_names_def
        cell_at_def outside_def cell_compare_def numeral_2_eq_2)
  have i: "in_bounds FloatT (Float (Fl 2)) (Float (Fl 6)) (Number (Fl 4))"
    by (simp add: in_bounds_def)
  have t: "thresholds (column_x [0, 4, 8]) (1 / 2) = [(''x'', Float (Fl 2), Float (Fl 6))]"
    by (simp add: thresholds_column_x threshold_048)
  from remove_outliers_training_keeps_no_outlier[OF h remove_outliers_048]
  have n: "none_outside [(''x'', Float (Fl 2), Float (Fl 6))] (column_x [4]\<lparr>rows := [(1, [Number (Fl 4)])]\<rparr>)"
    and v: "values_in_bounds [(''x'', Float (Fl 2), Float (Fl 6))] (column_x [4]\<lparr>rows := [(1, [Number (Fl 4)])]\<rparr>)"
    unfolding t by blast+
  show ?thesis
    by (intro conjI h remove_outliers_048 o n v i)
qed

text \<open>
  Claim C4 as it is stated fails on a training table with a single row: the sample
  standard deviation of one value is NaN, both bounds are NaN, the row remains, and
  \<open>lower_bound \<le> value \<le> upper_bound\<close> is false for it.
\<close>

theorem remove_outliers_single_row_counterexample:
  "remove_outliers (init [] False ''binary'') empty_store (column_x [5]) [(0, 1::int)] 8 =
     Inr ((column_x [5], [(0, 1)]),
          (init [] False ''binary'')\<lparr>outliers := Some [(''x'', Float NaN, Float NaN)], outliers_saved := True\<rparr>,
          empty_store\<lparr>models_dir := True, outliers_file := Some [(''x'', Float NaN, Float NaN)]\<rparr>)
   \<and> \<not> all_in_bounds [(''x'', Float NaN, Float NaN)] (column_x [5])"
proof
  have "remove_rows [(''x'', Float NaN, Float NaN)] (column_x [5]) [(0, 1::int)] = Inr (column_x [5], [(0, 1)])"
    by (simp add: remove_rows_column_x rows_column_x_single boolean_index_simps drop_index_Nil bind_def
        del: remove_rows.simps)
  then show "remove_outliers (init [] False ''binary'') empty_store (column_x [5]) [(0, 1::int)] 8 =
     Inr ((column_x [5], [(0, 1)]),
          (init [] False ''binary'')\<lparr>outliers := Some [(''x'', Float NaN, Float NaN)], outliers_saved := True\<rparr>,
          empty_store\<lparr>models_dir := True, outliers_file := Some [(''x'', Float NaN, Float NaN)]\<rparr>)"
    by (simp add: remove_outliers_column_x thresholds_column_x threshold_single bind_def
        del: remove_rows.simps)
  show "\<not> all_in_bounds [(''x'', Float NaN, Float NaN)] (column_x [5])"
    by (simp add: all_in_bounds_def lookup_column_x in_bounds_def)
qed

text \<open>
  Claim C2, as amended. In single-record processing with persisted bounds, let every
  bounded column that the record has be of a dtype other than object whose comparison
  with both bounds is valid (doubles for float64, int64 and bool; \<^verbatim>\<open>Timedelta\<close> or \<^verbatim>\<open>NaT\<close>
  for timedelta64; \<^verbatim>\<open>NaT\<close> for datetime64), so that no comparison raises. Then a record
  whose value in some bounded column is strictly below the lower or strictly above the
  upper bound is dropped: \<^verbatim>\<open>remove_outliers\<close> returns the features without any row and
  the labels without any entry, and raises nothing.
\<close>

theorem remove_outliers_serving_drops_record:
  assumes "one_line_processing self"
    and "outliers_file st = Some bs"
    and "rows features = [(i, cells)]"
    and "comparable bs features"
    and "(c, lo, hi) \<in> set bs"
    and "row_outside features (i, cells) (c, lo, hi)"
  shows "remove_outliers self st features [(i, y)] k
           = Inr ((features\<lparr>rows := []\<rparr>, []), load_borders self st, st)"
proof -
  from remove_rows_single_row[OF assms(3,4,5,6)]
  have r: "remove_rows bs features [(i, y)] = Inr (features\<lparr>rows := []\<rparr>, [])" .
  from assms(5) obtain b bs' where bs: "bs = b # bs'"
    by (cases bs) auto
  have o: "outliers (load_borders self st) = Some (b # bs')"
    using outliers_load_borders[OF assms(2)] bs by simp
  show ?thesis
    using assms(1) r
    by (simp add: remove_outliers_def o bs bind_def del: remove_rows.simps)
qed

text \<open>
  The theorem at a record with \<open>x = 50\<close> and the persisted bounds 2 and 6.
\<close>

theorem remove_outliers_serving_drops_record_witness:
  "one_line_processing (init [(''x'', Number (Fl 50))] True ''binary'')
   \<and> outliers_file served_store = Some [(''x'', Float (Fl 2), Float (Fl 6))]
   \<and> rows (DataFrame [(''x'', Number (Fl 50))]) = [(0, [Number (Fl 50)])]
   \<and> comparable [(''x'', Float (Fl 2), Float (Fl 6))] (DataFrame [(''x'', Number (Fl 50))])
   \<and> row_outside (DataFrame [(''x'', Number (Fl 50))]) (0, [Number (Fl 50)]) (''x'', Float (Fl 2), Float (Fl 6))
   \<and> remove_outliers (init [(''x'', Number (Fl 50))] True ''binary'') served_store
         (DataFrame [(''x'', Number (Fl 50))]) [(0, 1::int)] 8
       = Inr ((DataFrame [(''x'', Number (Fl 50))]\<lparr>rows := []\<rparr>, []),
              load_borders (init [(''x'', Number (Fl 50))] True ''binary'') served_store, served_store)"
proof -
  have h1: "one_line_processing (init [(''x'', Number (Fl 50))] True ''binary'')"
    by (simp add: init_def)
  have h2: "outliers_file served_store = Some [(''x'', Float (Fl 2), Float (Fl 6))]"
    by (simp add: served_store_def empty_store_def)
  have h3: "rows (DataFrame [(''x'', Number (Fl 50))]) = [(0, [Number (Fl 50)])]"
    by (simp add: DataFrame_def)
  have h6: "lookup_column (DataFrame [(''x'', Number (Fl 50))]) ''x'' = Some (FloatT, [Number (Fl 50)])"
    by (simp add: DataFrame_def lookup_column_def column_names_def cell_at_def)
  have h4: "comparable [(''x'', Float (Fl 2), Float (Fl 6))] (DataFrame [(''x'', Number (Fl 50))])"
    by (simp add: comparable_def h6 valid_comparison_def)
  have h5: "(''x'', Float (Fl 2), Float (Fl 6)) \<in> set [(''x'', Float (Fl 2), Float (Fl 6))]" by simp
  have h7: "row_outside (DataFrame [(''x'', Number (Fl 50))]) (0, [Number (Fl 50)]) (''x'', Float (Fl 2), Float (Fl 6))"
    by (simp add: row_outside_def DataFrame_def column_names_def cell_at_def outside_def cell_compare_def)
  from remove_outliers_serving_drops_record[OF h1 h2 h3 h4 h5 h7, of 1 8]
  show ?thesis using h1 h2 h3 h4 h7 by simp
qed

text \<open>
  Claim C2 as it is stated fails on a record with a string in a bounded column: with
  persisted bounds for \<open>a\<close> and \<open>x\<close> and the record \<open>{a: 'abc', x: 50}\<close>, the value of \<open>x\<close> is
  above its upper bound 6, and \<^verbatim>\<open>remove_outliers\<close> raises \<^verbatim>\<open>TypeError\<close> at the comparison of
  the column \<open>a\<close> instead of dropping the record.
\<close>

theorem remove_outliers_serving_text_counterexample:
  "one_line_processing (init text_record True ''binary'')
   \<and> outliers_file served_store_a = Some [(''a'', Float (Fl 0), Float (Fl 1)), (''x'', Float (Fl 2), Float (Fl 6))]
   \<and> lookup_column (DataFrame text_record) ''x'' = Some (FloatT, [Number (Fl 50)])
   \<and> flt (Fl 6) (Fl 50)
   \<and> remove_outliers (init text_record True ''binary'') served_store_a (DataFrame text_record) [(0, 1::int)] 8
       = Inl (TypeError ''not supported between instances'')"
proof -
  have l: "lookup_column (DataFrame text_record) ''a'' = Some (ObjectT, [Text ''abc''])"
    "lookup_column (DataFrame text_record) ''x'' = Some (FloatT, [Number (Fl 50)])"
    by (simp_all add: DataFrame_def text_record_def lookup_column_def column_names_def cell_at_def)
  have o: "outlier_condition ObjectT [Text ''abc''] (Float (Fl 0)) (Float (Fl 1))
             = Inl (TypeError ''not supported between instances'')"
    by (simp add: outlier_condition_def compare_column_def valid_comparison_def cell_compare_def
        object_compare_def bind_def)
  have r: "remove_rows [(''a'', Float (Fl 0), Float (Fl 1)), (''x'', Float (Fl 2), Float (Fl 6))]
             (DataFrame text_record) [(0, 1::int)] = Inl (TypeError ''not supported between instances'')"
    by (simp add: l o bind_def)
  show ?thesis
    using r l(2)
    by (simp add: remove_outliers_def init_def served_store_a_def empty_store_def load_borders_def
        bind_def del: remove_rows.simps)
qed

lemma to_double_small: "\<bar>n\<bar> < 2 ^ 53 \<Longrightarrow> to_double n = real_of_int n"
proof -
  assume a: "\<bar>n\<bar> < 2 ^ 53"
  have "\<not> (2::int) ^ (53 + k) \<le> \<bar>n\<bar>" for k
  proof -
    have "(2::int) ^ 53 \<le> 2 ^ (53 + k)" by (rule power_increasing) simp_all
    with a show ?thesis by linarith
  qed
  then have "filter (\<lambda>k. 2 ^ (53 + k) \<le> \<bar>n\<bar>) [0..<11] = []"
    unfolding filter_empty_conv by blast
  then show ?thesis
    by (simp add: to_double_def Let_def sgn_mult_abs del: upt_Suc of_int_mult of_int_abs)
qed

lemma to_double_rounds: "to_double (2 ^ 62 + 1) = 2 ^ 62"
proof -
  have "filter (\<lambda>k. (2::int) ^ (53 + k) \<le> \<bar>2 ^ 62 + 1\<bar>) [0..<11] = [0, 1, 2, 3, 4, 5, 6, 7, 8, 9]"
    by (simp add: upt_rec)
  then show ?thesis
    by (simp add: to_double_def Let_def del: upt_Suc)
qed

lemma keys_thresholds: "fst ` set (thresholds features k) = set (numeric_columns features)"
proof -
  have "fst ` set (thresholds features k) = dom (map_of (thresholds features k))"
    by (simp add: dom_map_of_conv_image_fst)
  also have "\<dots> = set (numeric_columns features)"
  proof (rule set_eqI)
    fix c
    show "c \<in> dom (map_of (thresholds features k)) \<longleftrightarrow> c \<in> set (numeric_columns features)"
      using numeric_column_lookup[of c features]
      by (auto simp: map_of_thresholds column_threshold_def dom_def split: if_splits)
  qed
  finally show ?thesis .
qed

lemma lookup_column_t:
  "lookup_column (column_t ds) ''t'' = Some (TimedeltaT, map Duration ds)"
proof -
  have "map (\<lambda>r. cell_at 0 (snd r)) (map (\<lambda>(i, d). (i, [Duration d])) ys) = map Duration (map snd ys)" for ys :: "(nat \<times> int) list"
    by (induction ys) (auto simp: cell_at_def)
  from this[of "enumerate 0 ds"]
  have "map (\<lambda>r. cell_at 0 (snd r)) (rows (column_t ds)) = map Duration ds"
    by (simp add: column_t_def)
  moreover have "position ''t'' (column_names (column_t ds)) = Some 0" "columns (column_t ds) ! 0 = (''t'', TimedeltaT)"
    by (simp_all add: column_t_def column_names_def)
  ultimately show ?thesis
    by (simp add: lookup_column_def)
qed

lemma threshold_t:
  "threshold TimedeltaT [Duration 0, Duration 4, Duration 9] (1 / 2) = (Timedelta 2, Timedelta 6)"
proof -
  have d: "durations [Duration 0, Duration 4, Duration 9] = [0, 4, 9]"
    by (simp add: durations_def to_double_small)
  have "4 < sqrt (61 / 3)"
    by (rule real_less_rsqrt) simp
  moreover have "sqrt (61 / 3) < 5"
    by (rule real_less_lsqrt) simp_all
  ultimately have f: "\<lfloor>sqrt (61 / 3)\<rfloor> = 4" by linarith
  have m: "mean_timedelta [Duration 0, Duration 4, Duration 9] = Timedelta 4"
    by (simp add: mean_timedelta_def d trunc_def)
  have "std_timedelta [Duration 0, Duration 4, Duration 9] = Timedelta 4"
    using f by (simp add: std_timedelta_def d trunc_def Let_def power2_eq_square)
  with m show ?thesis
    by (simp add: threshold_def trunc_def)
qed

lemma numeric_columns_t: "numeric_columns (column_t ds) = [''t'']"
  by (simp add: numeric_columns_def column_t_def is_number_def)

lemma thresholds_column_t:
  "thresholds (column_t ds) k = [(''t'', threshold TimedeltaT (map Duration ds) k)]"
  by (simp add: thresholds_def numeric_columns_t add_threshold_def lookup_column_t)

text \<open>
  Claim C5, as amended. In training mode \<^verbatim>\<open>remove_outliers\<close> stores, for every column
  that \<^verbatim>\<open>select_dtypes(include=[np.number])\<close> keeps and for no other, the bound pair
  \<open>(mean - k * std, mean + k * std)\<close>, where \<open>std\<close> is the sample standard deviation of
  pandas and \<open>k\<close> the multiplier, 8 when the argument is left out; for a timedelta64
  column the pair is computed in whole nanoseconds. For a column with the values 1, 2,
  3, 4 and 100 and the default multiplier the mean is 22, the standard deviation is the
  square root of 1902.5 (about 43.6), the bound pair is within 1 of \<open>(-327, 371)\<close>, and
  no row is removed.
\<close>

theorem thresholds_mean_std:
  "(\<forall>c \<in> set (numeric_columns features). \<exists>t cs.
       lookup_column features c = Some (t, cs) \<and>
       map_of (thresholds features k) c = Some
         (if t = TimedeltaT
          then (minus_timedelta (mean_timedelta cs) (times_timedelta k (std_timedelta cs)),
                plus_timedelta (mean_timedelta cs) (times_timedelta k (std_timedelta cs)))
          else (Float (fsub (mean cs) (fmul (Fl k) (std cs))),
                Float (fadd (mean cs) (fmul (Fl k) (std cs))))))
   \<and> fst ` set (thresholds features k) = set (numeric_columns features)
   \<and> (\<not> one_line_processing self \<longrightarrow>
        remove_outliers self st features labels k = Inr ((features', labels'), self', st') \<longrightarrow>
        outliers self' = Some (thresholds features k))
   \<and> (\<not> one_line_processing self \<longrightarrow>
        remove_outliers_default self st features labels = Inr ((features', labels'), self', st') \<longrightarrow>
        outliers self' = Some (thresholds features 8))
   \<and> (\<exists>lo hi self1 st1.
        remove_outliers_default (init [] False ''binary'') empty_store (column_x [1, 2, 3, 4, 100]) labs
          = Inr ((column_x [1, 2, 3, 4, 100], labs), self1, st1)
        \<and> outliers self1 = Some [(''x'', Float (Fl lo), Float (Fl hi))]
        \<and> \<bar>lo - (- 327)\<bar> \<le> 1 \<and> \<bar>hi - 371\<bar> \<le> 1)"
proof (intro conjI ballI impI)
  fix c assume c: "c \<in> set (numeric_columns features)"
  then have "map_of (thresholds features k) c = column_threshold features k c"
    by (simp add: map_of_thresholds)
  moreover from c obtain t cs where "lookup_column features c = Some (t, cs)"
    using numeric_column_lookup[of c features] by auto
  ultimately show "\<exists>t cs. lookup_column features c = Some (t, cs) \<and>
       map_of (thresholds features k) c = Some
         (if t = TimedeltaT
          then (minus_timedelta (mean_timedelta cs) (times_timedelta k (std_timedelta cs)),
                plus_timedelta (mean_timedelta cs) (times_timedelta k (std_timedelta cs)))
          else (Float (fsub (mean cs) (fmul (Fl k) (std cs))),
                Float (fadd (mean cs) (fmul (Fl k) (std cs)))))"
    by (simp add: column_threshold_def threshold_def Let_def)
next
  show "fst ` set (thresholds features k) = set (numeric_columns features)"
    by (rule keys_thresholds)
next
  assume "\<not> one_line_processing self"
    and "remove_outliers self st features labels k = Inr ((features', labels'), self', st')"
  then show "outliers self' = Some (thresholds features k)"
    by (rule remove_outliers_training(1))
next
  assume "\<not> one_line_processing self"
    and "remove_outliers_default self st features labels = Inr ((features', labels'), self', st')"
  then show "outliers self' = Some (thresholds features 8)"
    unfolding remove_outliers_default_def by (rule remove_outliers_training(1))
next
  let ?b = "[(''x'', Float (Fl (22 - 8 * sqrt (3805 / 2))), Float (Fl (22 + 8 * sqrt (3805 / 2))))]"
  have "remove_outliers_default (init [] False ''binary'') empty_store (column_x [1, 2, 3, 4, 100]) labs
          = Inr ((column_x [1, 2, 3, 4, 100], labs),
                 (init [] False ''binary'')\<lparr>outliers := Some ?b, outliers_saved := True\<rparr>,
                 empty_store\<lparr>models_dir := True, outliers_file := Some ?b\<rparr>)"
    by (simp add: remove_outliers_default_def remove_outliers_column_x thresholds_example
        remove_rows_example bind_def del: remove_rows.simps)
  moreover have "\<bar>(22 - 8 * sqrt (3805 / 2)) - (- 327)\<bar> \<le> 1" "\<bar>(22 + 8 * sqrt (3805 / 2)) - 371\<bar> \<le> 1"
    using sqrt_example by simp_all
  ultimately show "\<exists>lo hi self1 st1.
        remove_outliers_default (init [] False ''binary'') empty_store (column_x [1, 2, 3, 4, 100]) labs
          = Inr ((column_x [1, 2, 3, 4, 100], labs), self1, st1)
        \<and> outliers self1 = Some [(''x'', Float (Fl lo), Float (Fl hi))]
        \<and> \<bar>lo - (- 327)\<bar> \<le> 1 \<and> \<bar>hi - 371\<bar> \<le> 1"
    by (intro exI[of _ "22 - 8 * sqrt (3805 / 2)"] exI[of _ "22 + 8 * sqrt (3805 / 2)"]
          exI[of _ "(init [] False ''binary'')\<lparr>outliers := Some ?b, outliers_saved := True\<rparr>"]
          exI[of _ "empty_store\<lparr>models_dir := True, outliers_file := Some ?b\<rparr>"]) simp
qed

text \<open>
  The theorem at the float64 column 0, 4, 8 with multiplier 1/2 (mean 4, deviation 4)
  and at the timedelta64 column of 0, 4 and 9 nanoseconds (mean and deviation cut to
  4 nanoseconds).
\<close>

theorem thresholds_mean_std_witness:
  "''x'' \<in> set (numeric_columns (column_x [0, 4, 8]))
   \<and> map_of (thresholds (column_x [0, 4, 8]) (1 / 2)) ''x'' = Some (Float (Fl 2), Float (Fl 6))
   \<and> ''t'' \<in> set (numeric_columns (column_t [0, 4, 9]))
   \<and> map_of (thresholds (column_t [0, 4, 9]) (1 / 2)) ''t'' = Some (Timedelta 2, Timedelta 6)"
  using thresholds_mean_std[of "column_x [0, 4, 8]" "1 / 2"]
    thresholds_mean_std[of "column_t [0, 4, 9]" "1 / 2"]
  by (simp add: numeric_columns_x numeric_columns_t thresholds_column_x thresholds_column_t
      threshold_048 threshold_t)

text \<open>
  Claim C5 as it is stated gives the bound pair of the example as about \<open>(-288, 332)\<close>.
  The code computes a lower bound below -326 and an upper bound above 370: each is
  more than 38 away from the stated value.
\<close>

theorem thresholds_example_counterexample:
  "thresholds (column_x [1, 2, 3, 4, 100]) 8 =
     [(''x'', Float (Fl (22 - 8 * sqrt (3805 / 2))), Float (Fl (22 + 8 * sqrt (3805 / 2))))]
   \<and> \<not> \<bar>(22 - 8 * sqrt (3805 / 2)) - (- 288)\<bar> \<le> 38
   \<and> \<not> \<bar>(22 + 8 * sqrt (3805 / 2)) - 332\<bar> \<le> 38"
  using sqrt_example by (simp add: thresholds_example)

subsection \<open>The class map\<close>

lemma set_unique: "set (unique xs) = set xs"
  by (simp add: unique_def)

lemma unique_examples:
  "unique [Text ''benign''] = [Text ''benign'']"
  "unique [Text ''benign:example'', Text ''dga:foo''] = [Text ''benign:example'', Text ''dga:foo'']"
  "unique [Text ''unknown_source:x''] = [Text ''unknown_source:x'']"
  by (simp_all add: unique_def)

lemma cleaned_label_benign: "cleaned_label (Text ''benign'') = Inl (IndexError ''list index out of range'')"
  by (simp add: cleaned_label_def)

lemma binary_class_map_scenario_A:
  "generate_class_map ''binary'' dga_class_map (unique [Text ''benign:example'', Text ''dga:foo''])
     = Inr [(Text ''benign:example'', 0), (Text ''dga:foo'', 1)]"
  by (simp add: generate_class_map_def unique_examples cleaned_label_def bind_def
      label_startswith_def startswith_def)

lemma generic_loop_texts:
  "\<forall>l \<in> set ls. \<exists>s. l = Text s \<Longrightarrow> generic_loop ls cm = Inr (fold generic_step ls cm)"
proof (induction ls arbitrary: cm)
  case Nil
  then show ?case by simp
next
  case (Cons l ls)
  from Cons.prems obtain s where s: "l = Text s" by auto
  from Cons.prems have "\<forall>l \<in> set ls. \<exists>s. l = Text s" by simp
  note ih = Cons.IH[OF this]
  show ?case
    by (simp add: s ih label_startswith_def bind_def generic_step_def generic_class_def)
qed

lemma map_of_generic_step:
  "map_of (generic_step l cm) (Text s) =
     (if l = Text s \<and> generic_class s \<noteq> None then generic_class s else map_of cm (Text s))"
  by (cases l; cases "generic_class s")
     (auto simp: generic_step_def map_of_dict_set split: option.splits)

lemma map_of_fold_generic_step:
  "map_of (fold generic_step ls cm) (Text s) =
     (if Text s \<in> set ls \<and> generic_class s \<noteq> None then generic_class s else map_of cm (Text s))"
proof (induction ls arbitrary: cm)
  case Nil
  then show ?case by simp
next
  case (Cons l ls)
  show ?case
    by (cases "generic_class s") (auto simp: Cons.IH map_of_generic_step)
qed

lemma split_on_not_Nil: "split_on sep s \<noteq> []"
  by (induction s) (auto split: list.splits)

lemma split_on_length: "sep \<in> set s \<Longrightarrow> 2 \<le> length (split_on sep s)"
proof (induction s)
  case Nil
  then show ?case by simp
next
  case (Cons c s)
  show ?case
  proof (cases "c = sep")
    case True
    then show ?thesis
      using split_on_not_Nil[of sep s] by (cases "split_on sep s") simp_all
  next
    case False
    with Cons have "2 \<le> length (split_on sep s)" by simp
    with False show ?thesis
      by (cases "split_on sep s") simp_all
  qed
qed

lemma cleaned_label_colon:
  "CHR '':'' \<in> set s \<Longrightarrow> \<exists>c. cleaned_label (Text s) = Inr c"
  using split_on_length[of "CHR '':''" s] by (simp add: cleaned_label_def Let_def)

lemma binary_loop_texts:
  assumes "sequence (map cleaned_label u) = Inr cs"
  shows "\<forall>l \<in> set ls. \<exists>s. l = Text s \<Longrightarrow> binary_loop u ls cm = Inr (fold binary_step ls cm)"
proof (induction ls arbitrary: cm)
  case Nil
  then show ?case by simp
next
  case (Cons l ls)
  from Cons.prems obtain s where s: "l = Text s" by auto
  from Cons.prems have "\<forall>l \<in> set ls. \<exists>s. l = Text s" by simp
  note ih = Cons.IH[OF this]
  show ?case
    by (simp add: s ih assms label_startswith_def bind_def binary_step_def binary_class_def)
qed

lemma map_of_binary_step:
  "map_of (binary_step l cm) (Text s) =
     (if l = Text s \<and> binary_class s \<noteq> None then binary_class s else map_of cm (Text s))"
  by (cases l; cases "binary_class s")
     (auto simp: binary_step_def map_of_dict_set split: option.splits)

lemma map_of_fold_binary_step:
  "map_of (fold binary_step ls cm) (Text s) =
     (if Text s \<in> set ls \<and> binary_class s \<noteq> None then binary_class s else map_of cm (Text s))"
proof (induction ls arbitrary: cm)
  case Nil
  then show ?case by simp
next
  case (Cons l ls)
  show ?case
    by (cases "binary_class s") (auto simp: Cons.IH map_of_binary_step)
qed

lemma binary_class_map_with_colons:
  assumes "\<forall>l \<in> set labels. \<exists>s. l = Text s \<and> CHR '':'' \<in> set s"
  shows "\<exists>cm. generate_class_map ''binary'' dga_class_map (unique labels) = Inr cm
           \<and> (\<forall>s. Text s \<in> set labels \<longrightarrow> map_of cm (Text s) = binary_class s)"
proof -
  let ?u = "unique labels"
  from assms have a: "\<forall>l \<in> set ?u. \<exists>s. l = Text s \<and> CHR '':'' \<in> set s"
    by (simp only: set_unique)
  then have "\<forall>m \<in> set (map cleaned_label ?u). \<exists>x. m = Inr x"
    using cleaned_label_colon by fastforce
  then obtain cs where cs: "sequence (map cleaned_label ?u) = Inr cs"
    using sequence_all_Inr by blast
  from a have "\<forall>l \<in> set ?u. \<exists>s. l = Text s" by blast
  from binary_loop_texts[OF cs this]
  have g: "generate_class_map ''binary'' dga_class_map ?u = Inr (fold binary_step ?u [])"
    by (simp add: generate_class_map_def)
  have "map_of (fold binary_step ?u []) (Text s) = binary_class s" if "Text s \<in> set labels" for s
    using that by (cases "binary_class s") (simp_all add: map_of_fold_binary_step set_unique)
  with g show ?thesis by blast
qed

text \<open>
  Claim C6 fails on the code for a label without a colon, here the single label
  \<open>benign\<close> under the binary policy: the list comprehension at the head of the loop
  body indexes \<^verbatim>\<open>label.split(":")[1]\<close> and raises \<^verbatim>\<open>IndexError\<close>, so no class map is built.
  For labels that all contain a colon the class map is the one of the claim
  (\<open>binary_class_map_with_colons\<close>, \<open>binary_class_map_scenario_A\<close>).
\<close>

theorem binary_class_map_label_without_colon:
  "generate_class_map ''binary'' dga_class_map (unique [Text ''benign''])
     = Inl (IndexError ''list index out of range'')"
  by (simp add: generate_class_map_def unique_examples cleaned_label_benign bind_def)

text \<open>
  Claim C7. Under the generic policy (any mode other than \<open>binary\<close> and \<open>multiclass\<close>)
  and for a label column of strings, the class map gives 0 to every label that starts
  with \<open>benign\<close>, 1 to every label that starts with \<open>malware\<close>, \<open>misp\<close> or \<open>phishing\<close>, and
  no entry to any other label; the label vector has one entry per row, under the index
  label of the row, and that entry is -1 for a label without entry, such as
  \<open>unknown_source:x\<close>.
\<close>

theorem generic_class_map_and_sentinel:
  assumes "mode \<noteq> ''binary''" and "mode \<noteq> ''multiclass''"
    and "\<forall>l \<in> set (map snd labels). \<exists>s. l = Text s"
  shows "\<exists>cm. generate_class_map mode dga_class_map (unique (map snd labels)) = Inr cm
           \<and> (\<forall>s. Text s \<in> set (map snd labels) \<longrightarrow> map_of cm (Text s) = generic_class s)
           \<and> encode_labels cm labels =
               map (\<lambda>(i, l). (i, case l of
                                    Text s \<Rightarrow> (case generic_class s of Some v \<Rightarrow> v | None \<Rightarrow> - 1)
                                  | _ \<Rightarrow> - 1)) labels
           \<and> generic_class ''unknown_source:x'' = None"
proof -
  let ?ls = "map snd labels"
  let ?cm = "fold generic_step (unique ?ls) []"
  from assms(3) have "\<forall>l \<in> set (unique ?ls). \<exists>s. l = Text s"
    by (simp only: set_unique)
  then have g: "generate_class_map mode dga_class_map (unique ?ls) = Inr ?cm"
    using assms(1,2) by (simp add: generate_class_map_def generic_loop_texts)
  have m: "map_of ?cm (Text s) = generic_class s" if "Text s \<in> set ?ls" for s
    using that by (cases "generic_class s") (simp_all add: map_of_fold_generic_step set_unique)
  have e: "encode_labels ?cm labels =
               map (\<lambda>(i, l). (i, case l of
                                    Text s \<Rightarrow> (case generic_class s of Some v \<Rightarrow> v | None \<Rightarrow> - 1)
                                  | _ \<Rightarrow> - 1)) labels"
    unfolding encode_labels_def
  proof (rule map_cong[OF refl])
    fix p assume p: "p \<in> set labels"
    obtain i l where il: "p = (i, l)" by (cases p) auto
    from p il have "l \<in> set ?ls" by force
    with assms(3) obtain s where s: "l = Text s" by auto
    with \<open>l \<in> set ?ls\<close> have "map_of ?cm (Text s) = generic_class s" by (simp add: m)
    then show "(case p of (i, x) \<Rightarrow> (i, case map_of ?cm x of Some v \<Rightarrow> v | None \<Rightarrow> - 1)) =
       (case p of (i, l) \<Rightarrow> (i, case l of Text s \<Rightarrow> (case generic_class s of Some v \<Rightarrow> v | None \<Rightarrow> - 1) | _ \<Rightarrow> - 1))"
      by (simp add: il s)
  qed
  have u: "generic_class ''unknown_source:x'' = None"
    by (simp add: generic_class_def startswith_def)
  from g m e u show ?thesis by blast
qed

text \<open>The theorem at three rows labelled \<open>benign:a\<close>, \<open>unknown_source:x\<close> and \<open>misp:b\<close>.\<close>

theorem generic_class_map_and_sentinel_witness:
  "''False'' \<noteq> ''binary'' \<and> ''False'' \<noteq> ''multiclass''
   \<and> generate_class_map ''False'' [] (unique [Text ''benign:a'', Text ''unknown_source:x'', Text ''misp:b''])
        = Inr [(Text ''benign:a'', 0), (Text ''misp:b'', 1)]
   \<and> encode_labels [(Text ''benign:a'', 0), (Text ''misp:b'', 1)]
        [(0, Text ''benign:a''), (1, Text ''unknown_source:x''), (2, Text ''misp:b'')]
        = [(0, 0), (1, - 1), (2, 1)]"
proof -
  have h1: "''False'' \<noteq> ''binary''" and h2: "''False'' \<noteq> ''multiclass''" by simp_all
  let ?labels = "[(0::nat, Text ''benign:a''), (1, Text ''unknown_source:x''), (2, Text ''misp:b'')]"
  have h3: "\<forall>l \<in> set (map snd ?labels). \<exists>s. l = Text s" by simp
  have ev: "generate_class_map ''False'' [] (unique (map snd ?labels))
        = Inr [(Text ''benign:a'', 0), (Text ''misp:b'', 1)]"
    by (simp add: generate_class_map_def unique_def label_startswith_def startswith_def bind_def)
  have gc: "generic_class ''benign:a'' = Some 0" "generic_class ''unknown_source:x'' = None"
    "generic_class ''misp:b'' = Some 1"
    by (simp_all add: generic_class_def startswith_def)
  from generic_class_map_and_sentinel[OF h1 h2 h3, of "[]"] ev
  have "encode_labels [(Text ''benign:a'', 0), (Text ''misp:b'', 1)] ?labels = [(0, 0), (1, - 1), (2, 1)]"
    by (simp add: gc)
  with ev show ?thesis by simp
qed

subsection \<open>Scaler recommendation and scaling\<close>

lemma reals_no_NaN: "NaN \<notin> set xs \<Longrightarrow> reals xs = map val xs"
proof (induction xs)
  case Nil
  then show ?case by (simp add: reals_def)
next
  case (Cons x xs)
  then show ?case by (cases x) (simp_all add: reals_def)
qed

lemma set_positions:
  "set (positions P df) = {i. i < length (columns df) \<and> P (snd (snd (i, columns df ! i)))}"
proof -
  have "set (positions P df) = fst ` {p \<in> set (zip [0..<length (columns df)] (columns df)). P (snd (snd p))}"
    by (auto simp: positions_def enumerate_eq_zip split_beta)
  also have "\<dots> = {i. i < length (columns df) \<and> P (snd (snd (i, columns df ! i)))}"
  proof (rule set_eqI)
    fix i
    show "i \<in> fst ` {p \<in> set (zip [0..<length (columns df)] (columns df)). P (snd (snd p))}
          \<longleftrightarrow> i \<in> {i. i < length (columns df) \<and> P (snd (snd (i, columns df ! i)))}"
    proof
      assume "i \<in> fst ` {p \<in> set (zip [0..<length (columns df)] (columns df)). P (snd (snd p))}"
      then obtain p where p: "p \<in> set (zip [0..<length (columns df)] (columns df))" "P (snd (snd p))" "i = fst p"
        by auto
      from p(1) obtain j where j: "j < length (columns df)" "p = ([0..<length (columns df)] ! j, columns df ! j)"
        by (auto simp: set_zip)
      with p show "i \<in> {i. i < length (columns df) \<and> P (snd (snd (i, columns df ! i)))}"
        by simp
    next
      assume "i \<in> {i. i < length (columns df) \<and> P (snd (snd (i, columns df ! i)))}"
      then have i: "i < length (columns df)" "P (snd (columns df ! i))" by simp_all
      then have "(i, columns df ! i) \<in> set (zip [0..<length (columns df)] (columns df))"
        by (force simp: set_zip)
      with i(2) show "i \<in> fst ` {p \<in> set (zip [0..<length (columns df)] (columns df)). P (snd (snd p))}"
        by force
    qed
  qed
  finally show ?thesis .
qed

lemma positions_mem:
  "i \<in> set (positions P df) \<longleftrightarrow> i < length (columns df) \<and> P (snd (columns df ! i))"
  by (simp add: set_positions)

lemma column_at_select_number:
  assumes "j < length (positions is_number df)"
  shows "column_at (select_number df) j = column_at df (positions is_number df ! j)"
  using assms by (simp add: column_at_def select_number_def cell_at_def comp_def)

lemma to_numpy_select_number:
  "to_numpy (select_number df) = map (\<lambda>i. map array_value (column_at df i)) (positions is_number df)"
proof -
  let ?ps = "positions is_number df"
  have "to_numpy (select_number df) = map (\<lambda>j. map array_value (column_at (select_number df) j)) [0..<length ?ps]"
    by (simp add: to_numpy_def select_number_def)
  also have "\<dots> = map (\<lambda>j. map array_value (column_at df (?ps ! j))) [0..<length ?ps]"
    by (rule map_cong) (simp_all add: column_at_select_number)
  also have "\<dots> = map (\<lambda>i. map array_value (column_at df i)) (map (\<lambda>j. ?ps ! j) [0..<length ?ps])"
    by (simp add: comp_def)
  also have "\<dots> = map (\<lambda>i. map array_value (column_at df i)) ?ps"
    by (simp only: map_nth)
  finally show ?thesis .
qed

lemma has_timedelta_select_number:
  "has_timedelta (select_number df) \<longleftrightarrow> TimedeltaT \<in> snd ` set (columns df)"
proof -
  have "has_timedelta (select_number df) \<longleftrightarrow> (\<exists>i \<in> set (positions is_number df). snd (columns df ! i) = TimedeltaT)"
    by (auto simp: has_timedelta_def select_number_def list_ex_iff split_beta)
  also have "\<dots> \<longleftrightarrow> (\<exists>i < length (columns df). snd (columns df ! i) = TimedeltaT)"
    by (auto simp: positions_mem is_number_def)
  also have "\<dots> \<longleftrightarrow> TimedeltaT \<in> snd ` set (columns df)"
    by (force simp: in_set_conv_nth image_iff)
  finally show ?thesis .
qed

lemma zscore_exceeds:
  assumes "k < length (rows df)"
  shows "flt (Fl 3) (fabs (zscore (map array_value (column_at df i)) ! k))
           \<longleftrightarrow> (case z_score df i k of Some z \<Rightarrow> 3 < \<bar>z\<bar> | None \<Rightarrow> False)"
proof -
  let ?xs = "map (\<lambda>r. array_value (cell_at i (snd r))) (rows df)"
  have x: "map array_value (column_at df i) = ?xs"
    by (simp add: column_at_def comp_def)
  show ?thesis
  proof (cases "NaN \<in> set ?xs")
    case True
    with assms show ?thesis
      unfolding x by (simp add: zscore_def z_score_def Let_def)
  next
    case False
    then have r: "reals ?xs = map val ?xs" by (rule reals_no_NaN)
    show ?thesis
      unfolding x using assms False
      by (simp add: zscore_def z_score_def Let_def r comp_def)
  qed
qed

lemma outlier_rows_nth:
  assumes "k < length (rows df)" and "TimedeltaT \<notin> snd ` set (columns df)"
  shows "outlier_rows (length (rows df)) (map zscore (to_numpy (select_number df))) ! k
           \<longleftrightarrow> any_z_score_above_3 df k"
proof -
  let ?Z = "\<lambda>i. case z_score df i k of Some z \<Rightarrow> 3 < \<bar>z\<bar> | None \<Rightarrow> False"
  have n: "is_number (snd (columns df ! i)) \<longleftrightarrow> snd (columns df ! i) \<in> {FloatT, IntT}"
    if "i < length (columns df)" for i
  proof -
    from that have "snd (columns df ! i) \<in> snd ` set (columns df)" by simp
    with assms(2) have "snd (columns df ! i) \<noteq> TimedeltaT" by metis
    then show ?thesis by (simp add: is_number_def)
  qed
  have "outlier_rows (length (rows df)) (map zscore (to_numpy (select_number df))) ! k
          \<longleftrightarrow> (\<exists>i \<in> set (positions is_number df). flt (Fl 3) (fabs (zscore (map array_value (column_at df i)) ! k)))"
    using assms(1) by (simp add: outlier_rows_def to_numpy_select_number list_ex_iff)
  also have "\<dots> \<longleftrightarrow> (\<exists>i \<in> set (positions is_number df). ?Z i)"
    using zscore_exceeds[OF assms(1)] by simp
  also have "\<dots> \<longleftrightarrow> (\<exists>i. i < length (columns df) \<and> is_number (snd (columns df ! i)) \<and> ?Z i)"
    by (simp only: Bex_def positions_mem conj_assoc)
  also have "\<dots> \<longleftrightarrow> (\<exists>i < length (columns df). snd (columns df ! i) \<in> {FloatT, IntT} \<and> ?Z i)"
    using n by blast
  also have "\<dots> \<longleftrightarrow> any_z_score_above_3 df k"
    by (auto simp: any_z_score_above_3_def list_ex_iff)
  finally show ?thesis .
qed

lemma outlier_rows_count:
  assumes "TimedeltaT \<notin> snd ` set (columns df)"
  shows "length (filter id (outlier_rows (length (rows df)) (map zscore (to_numpy (select_number df)))))
           = length (filter (any_z_score_above_3 df) [0..<length (rows df)])"
proof -
  let ?n = "length (rows df)"
  let ?z = "map zscore (to_numpy (select_number df))"
  have l: "length (outlier_rows ?n ?z) = ?n"
    by (simp add: outlier_rows_def)
  have "outlier_rows ?n ?z = map (any_z_score_above_3 df) [0..<?n]"
    by (rule nth_equalityI) (simp_all add: l outlier_rows_nth[OF _ assms])
  then show ?thesis
    by (simp add: filter_map comp_def)
qed

lemma outlier_proportion:
  assumes "TimedeltaT \<notin> snd ` set (columns df)"
  shows "flt (Fl (5 / 100)) (np_mean (outlier_rows (length (rows df)) (map zscore (to_numpy (select_number df)))))
           \<longleftrightarrow> 5 / 100 < outlier_fraction df"
proof -
  let ?z = "map zscore (to_numpy (select_number df))"
  have l: "length (outlier_rows (length (rows df)) ?z) = length (rows df)"
    by (simp add: outlier_rows_def)
  then have e: "outlier_rows (length (rows df)) ?z = [] \<longleftrightarrow> rows df = []"
    by (metis length_0_conv)
  show ?thesis
    by (simp add: np_mean_def e l outlier_rows_count[OF assms] outlier_fraction_def)
qed

lemma missing_values_pos: "missing_values df > 0 \<longleftrightarrow> has_missing df"
proof -
  have "missing_values df > 0 \<longleftrightarrow> (\<exists>i \<in> set [0..<length (columns df)]. list_ex isnull (column_at df i))"
    unfolding missing_values_def length_greater_0_conv filter_empty_conv by blast
  also have "\<dots> \<longleftrightarrow> has_missing df"
    by (auto simp: has_missing_def list_ex_iff column_at_def)
  finally show ?thesis .
qed

lemma rows_select_number: "length (rows (select_number df)) = length (rows df)"
  by (simp add: select_number_def)

lemma scaler_recommendation_returns:
  assumes "TimedeltaT \<notin> snd ` set (columns df)"
  shows "scaler_recommendation df =
     Inr [(''svm'', if 5 / 100 < outlier_fraction df \<or> has_missing df
                    then ''RobustScaler'' else ''StandardScaler''),
          (''xgboost'', ''MinMaxScaler''), (''cnn'', ''MinMaxScaler + Sigmoid'')]"
proof -
  have z: "zscore_frame (select_number df) = Inr (map zscore (to_numpy (select_number df)))"
    using assms by (simp add: zscore_frame_def has_timedelta_select_number)
  have p: "flt (Fl (5 / 100)) (np_mean (outlier_rows (length (rows (select_number df)))
               (map zscore (to_numpy (select_number df)))))
             \<longleftrightarrow> 5 / 100 < outlier_fraction df"
    using outlier_proportion[OF assms] by (simp only: rows_select_number)
  show ?thesis
    by (simp only: scaler_recommendation_def Let_def z bind_def sum.case p missing_values_pos) simp
qed

lemma scaler_recommendation_xgboost:
  "scaler_recommendation df = Inr r \<Longrightarrow> map_of r ''xgboost'' = Some ''MinMaxScaler''"
  by (auto simp: scaler_recommendation_def bind_def Let_def split: sum.splits if_splits)

lemma apply_scaling_unsupported:
  assumes "\<not> one_line_processing self"
    and "scaler_type \<notin> {''StandardScaler'', ''MinMaxScaler'', ''RobustScaler'', ''MinMaxScaler + Sigmoid''}"
  shows "apply_scaling self st df scaler_type = Inl (ValueError (''Unsupported scaler type: '' @ scaler_type))"
  using assms by (simp add: apply_scaling_def bind_def Let_def)

text \<open>
  Claim C3 fails on the code: in single-record processing without a persisted scaler,
  \<^verbatim>\<open>load_borders\<close> leaves \<^verbatim>\<open>self.scaler\<close> at \<^verbatim>\<open>None\<close> and \<^verbatim>\<open>self.scaler.transform\<close> raises
  \<^verbatim>\<open>AttributeError\<close>, for every frame and scaler name. The call does not pass silently, but
  it has no check of its own and raises no \<^verbatim>\<open>ValueError\<close>, as \<^verbatim>\<open>remove_outliers\<close> does for
  missing bounds and \<^verbatim>\<open>perform_eda\<close> for a missing pipeline.
\<close>

theorem apply_scaling_serving_without_scaler:
  "apply_scaling (init input_data True mode) (st\<lparr>scaler_file := None\<rparr>) df scaler_type
     = Inl (AttributeError ''NoneType object has no attribute transform'')"
  by (simp add: apply_scaling_def init_def load_borders_def bind_def Let_def split: option.splits)

lemma rows_spike:
  "rows spike_frame = map (\<lambda>(i, x). (i, [Number (Fl x)]))
     [(0, 0), (1, 0), (2, 0), (3, 0), (4, 0), (5, 0), (6, 0), (7, 0), (8, 0), (9, 0), (10, 0),
      (11, 0), (12, 0), (13, 0), (14, 0), (15, 0), (16, 17)]"
  by (simp add: spike_frame_def column_x_def)

lemma z_score_spike:
  "z_score spike_frame 0 k =
     Some (([0, 0, 0, 0, 0, 0, 0, 0, 0, 0, 0, 0, 0, 0, 0, 0, 17] ! k - 1) / 4)"
proof -
  have "sqrt 16 = 4"
    using real_sqrt_abs[of 4] by simp
  then show ?thesis
    by (simp add: z_score_def rows_spike cell_at_def Let_def power2_eq_square)
qed

lemma outliers_spike: "filter (any_z_score_above_3 spike_frame) [0..<17] = [16]"
proof -
  have c: "columns spike_frame = [(''x'', FloatT)]"
    by (simp add: spike_frame_def column_x_def)
  have a: "any_z_score_above_3 spike_frame k
          \<longleftrightarrow> 3 < \<bar>(([0, 0, 0, 0, 0, 0, 0, 0, 0, 0, 0, 0, 0, 0, 0, 0, 17] ! k - 1) / 4 :: real)\<bar>" for k
    by (simp add: any_z_score_above_3_def c z_score_spike)
  show ?thesis
    by (simp add: upt_rec a)
qed

lemma outlier_fraction_spike: "outlier_fraction spike_frame = 1 / 17"
proof -
  have l: "length (rows spike_frame) = 17"
    by (simp add: rows_spike)
  then have r: "rows spike_frame \<noteq> []"
    by auto
  show ?thesis
    unfolding outlier_fraction_def l outliers_spike using r by simp
qed

lemma not_missing_spike: "\<not> has_missing spike_frame"
proof -
  have c: "columns spike_frame = [(''x'', FloatT)]"
    by (simp add: spike_frame_def column_x_def)
  show ?thesis
    by (simp add: has_missing_def c rows_spike cell_at_def)
qed

lemma no_timedelta_x: "TimedeltaT \<notin> snd ` set (columns (column_x xs))"
  by (simp add: column_x_def)

lemma recommendation_spike:
  "scaler_recommendation spike_frame =
     Inr [(''svm'', ''RobustScaler''), (''xgboost'', ''MinMaxScaler''), (''cnn'', ''MinMaxScaler + Sigmoid'')]"
proof -
  have "TimedeltaT \<notin> snd ` set (columns spike_frame)"
    unfolding spike_frame_def by (rule no_timedelta_x)
  from scaler_recommendation_returns[OF this] show ?thesis
    by (simp add: outlier_fraction_spike)
qed

lemma has_missing_nan_frame: "has_missing nan_frame"
proof -
  have "isnull (cell_at 0 (snd (1::nat, [Number NaN])))"
    by (simp add: cell_at_def)
  then show ?thesis
    unfolding has_missing_def nan_frame_def by (intro exI[of _ 0]) simp
qed

lemma z_score_02: "z_score (column_x [0, 2]) 0 k = Some ([0, 2] ! k - 1)"
  by (simp add: z_score_def column_x_def cell_at_def Let_def power2_eq_square)

lemma outlier_fraction_02: "outlier_fraction (column_x [0, 2]) = 0"
proof -
  have c: "columns (column_x [0, 2]) = [(''x'', FloatT)]" "length (rows (column_x [0, 2])) = 2"
    by (simp_all add: column_x_def)
  have a: "\<not> any_z_score_above_3 (column_x [0, 2]) k" if "k < 2" for k
  proof -
    from that have "k = 0 \<or> k = 1" by auto
    then show ?thesis
      by (auto simp: any_z_score_above_3_def c z_score_02)
  qed
  then have "filter (any_z_score_above_3 (column_x [0, 2])) [0..<2] = []"
    by (simp add: filter_empty_conv)
  then show ?thesis
    by (simp add: outlier_fraction_def c)
qed

lemma not_missing_02: "\<not> has_missing (column_x [0, 2])"
  by (simp add: has_missing_def column_x_def cell_at_def)

text \<open>
  Claim C9, as amended. For every frame without a timedelta64 column,
  \<^verbatim>\<open>scaler_recommendation\<close> returns, and gives \<open>RobustScaler\<close> under the key \<open>svm\<close> if and
  only if the fraction of rows with a z-score of magnitude above 3 in some float64 or
  int64 column exceeds 0.05 or a value is missing, and \<open>StandardScaler\<close> otherwise; whenever
  it returns, it gives \<open>MinMaxScaler\<close> under \<open>xgboost\<close>. In training mode \<^verbatim>\<open>apply_scaling\<close>
  raises \<^verbatim>\<open>ValueError\<close>, the configuration error of the code, for a scaler name that is
  none of the four it knows.
\<close>

theorem scaler_recommendation_policy:
  "(TimedeltaT \<notin> snd ` set (columns df) \<longrightarrow>
      (\<exists>r. scaler_recommendation df = Inr r
           \<and> map_of r ''svm'' =
               Some (if 5 / 100 < outlier_fraction df \<or> has_missing df
                     then ''RobustScaler'' else ''StandardScaler'')))
   \<and> (scaler_recommendation df = Inr r' \<longrightarrow> map_of r' ''xgboost'' = Some ''MinMaxScaler'')
   \<and> (\<not> one_line_processing self \<longrightarrow>
        scaler_type \<notin> {''StandardScaler'', ''MinMaxScaler'', ''RobustScaler'', ''MinMaxScaler + Sigmoid''} \<longrightarrow>
        apply_scaling self st features scaler_type
          = Inl (ValueError (''Unsupported scaler type: '' @ scaler_type)))"
proof (intro conjI impI)
  assume "TimedeltaT \<notin> snd ` set (columns df)"
  from scaler_recommendation_returns[OF this]
  show "\<exists>r. scaler_recommendation df = Inr r
           \<and> map_of r ''svm'' =
               Some (if 5 / 100 < outlier_fraction df \<or> has_missing df
                     then ''RobustScaler'' else ''StandardScaler'')"
    by simp
next
  assume "scaler_recommendation df = Inr r'"
  then show "map_of r' ''xgboost'' = Some ''MinMaxScaler''"
    by (rule scaler_recommendation_xgboost)
next
  assume "\<not> one_line_processing self"
    and "scaler_type \<notin> {''StandardScaler'', ''MinMaxScaler'', ''RobustScaler'', ''MinMaxScaler + Sigmoid''}"
  then show "apply_scaling self st features scaler_type
          = Inl (ValueError (''Unsupported scaler type: '' @ scaler_type))"
    by (rule apply_scaling_unsupported)
qed

text \<open>
  The theorem at a frame of 17 rows in which one row has the z-score 4 and no value is
  missing, at a frame with a NaN, at a frame with neither, for which \<open>svm\<close> gets
  \<open>StandardScaler\<close>, and at the scaler name \<open>LogScaler\<close>.
\<close>

theorem scaler_recommendation_policy_witness:
  "TimedeltaT \<notin> snd ` set (columns spike_frame)
   \<and> outlier_fraction spike_frame = 1 / 17 \<and> \<not> has_missing spike_frame
   \<and> (\<exists>r. scaler_recommendation spike_frame = Inr r \<and> map_of r ''svm'' = Some ''RobustScaler'')
   \<and> TimedeltaT \<notin> snd ` set (columns nan_frame) \<and> has_missing nan_frame
   \<and> (\<exists>r. scaler_recommendation nan_frame = Inr r \<and> map_of r ''svm'' = Some ''RobustScaler'')
   \<and> TimedeltaT \<notin> snd ` set (columns (column_x [0, 2]))
   \<and> outlier_fraction (column_x [0, 2]) = 0 \<and> \<not> has_missing (column_x [0, 2])
   \<and> (\<exists>r. scaler_recommendation (column_x [0, 2]) = Inr r \<and> map_of r ''svm'' = Some ''StandardScaler'')
   \<and> scaler_recommendation spike_frame =
        Inr [(''svm'', ''RobustScaler''), (''xgboost'', ''MinMaxScaler''), (''cnn'', ''MinMaxScaler + Sigmoid'')]
   \<and> map_of [(''svm'', ''RobustScaler''), (''xgboost'', ''MinMaxScaler''), (''cnn'', ''MinMaxScaler + Sigmoid'')]
        ''xgboost'' = Some ''MinMaxScaler''
   \<and> \<not> one_line_processing (init [] False ''False'')
   \<and> ''LogScaler'' \<notin> {''StandardScaler'', ''MinMaxScaler'', ''RobustScaler'', ''MinMaxScaler + Sigmoid''}
   \<and> apply_scaling (init [] False ''False'') empty_store nan_frame ''LogScaler''
        = Inl (ValueError ''Unsupported scaler type: LogScaler'')"
proof -
  have t1: "TimedeltaT \<notin> snd ` set (columns spike_frame)"
    unfolding spike_frame_def by (rule no_timedelta_x)
  have t2: "TimedeltaT \<notin> snd ` set (columns nan_frame)"
    by (simp add: nan_frame_def)
  have t3: "TimedeltaT \<notin> snd ` set (columns (column_x [0, 2]))"
    by (rule no_timedelta_x)
  have h1: "\<not> one_line_processing (init [] False ''False'')"
    by (simp add: init_def)
  have h2: "''LogScaler'' \<notin> {''StandardScaler'', ''MinMaxScaler'', ''RobustScaler'', ''MinMaxScaler + Sigmoid''}"
    by simp
  note a = scaler_recommendation_policy[of spike_frame
      "[(''svm'', ''RobustScaler''), (''xgboost'', ''MinMaxScaler''), (''cnn'', ''MinMaxScaler + Sigmoid'')]"
      "init [] False ''False''" "''LogScaler''" empty_store nan_frame]
  note b = scaler_recommendation_policy[of nan_frame]
  note c = scaler_recommendation_policy[of "column_x [0, 2]"]
  from a t1 have w1: "\<exists>r. scaler_recommendation spike_frame = Inr r \<and> map_of r ''svm'' = Some ''RobustScaler''"
    by (simp add: outlier_fraction_spike)
  from b t2 have w2: "\<exists>r. scaler_recommendation nan_frame = Inr r \<and> map_of r ''svm'' = Some ''RobustScaler''"
    by (simp add: has_missing_nan_frame)
  from c t3 have w3: "\<exists>r. scaler_recommendation (column_x [0, 2]) = Inr r \<and> map_of r ''svm'' = Some ''StandardScaler''"
    by (simp add: outlier_fraction_02 not_missing_02)
  from a recommendation_spike
  have w4: "map_of [(''svm'', ''RobustScaler''), (''xgboost'', ''MinMaxScaler''), (''cnn'', ''MinMaxScaler + Sigmoid'')]
        ''xgboost'' = Some ''MinMaxScaler''"
    by blast
  from a h1 h2 have w5: "apply_scaling (init [] False ''False'') empty_store nan_frame ''LogScaler''
        = Inl (ValueError ''Unsupported scaler type: LogScaler'')"
    by simp
  show ?thesis
    by (intro conjI t1 t2 t3 h1 h2 w1 w2 w3 w4 w5 outlier_fraction_spike not_missing_spike
        has_missing_nan_frame outlier_fraction_02 not_missing_02 recommendation_spike)
qed

text \<open>
  Claim C9 as it is stated fails on a frame with a timedelta64 column, which
  \<^verbatim>\<open>select_dtypes(include=[np.number])\<close> keeps: \<^verbatim>\<open>zscore\<close> raises and no recommendation is
  returned.
\<close>

theorem scaler_recommendation_timedelta_counterexample:
  "scaler_recommendation (column_t [0, 4, 9])
     = Inl (TypeError ''ufunc multiply cannot use operands with types timedelta64'')"
  by (simp add: scaler_recommendation_def zscore_frame_def has_timedelta_select_number
      column_t_def bind_def)

subsection \<open>Min-max scaling and the sigmoid\<close>




















lemma check_array_Inr:
  assumes "check_array (select_number df) = Inr X"
  shows "TimedeltaT \<notin> snd ` set (columns df)"
  using assms
  by (simp add: check_array_def has_timedelta_select_number split: if_splits)



end
